theory Spec2Isabelle
  imports Complex_Main "HOL-Library.AList" "HOL-Library.Multiset"
begin

section \<open>Scope of the model\<close>

text \<open>
  The notebook \<^verbatim>\<open>Custom_modules.ipynb\<close> defines two subclasses of \<^verbatim>\<open>torch.nn.Module\<close>
  (\<^verbatim>\<open>Linear\<close> and \<^verbatim>\<open>MyLambda\<close>) and one training cell.  Its own code is embedded
  below statement by statement.  The calls it makes into the tensor library are
  modelled as far as the notebook uses them:
  \<^item> a tensor is a dtype, a device and a shape with its elements in row-major
    order; the dtypes are those that the constructors used by the notebook give
    (\<^verbatim>\<open>float32\<close> for \<^verbatim>\<open>rand\<close>, \<^verbatim>\<open>randn\<close>, \<^verbatim>\<open>zeros\<close> and \<^verbatim>\<open>torch.Tensor\<close>, with the library's
    default dtype and device) and, for inputs made elsewhere, \<^verbatim>\<open>float64\<close> and \<^verbatim>\<open>int64\<close>;
    a number held by a tensor is represented by a real (no statement below depends on
    rounding); sizes and indices are natural numbers;
  \<^item> an exception is an \<open>Inl\<close> result;
  \<^item> the tensors that are mutated in place (the parameters with their gradients)
    and the tensors \<^verbatim>\<open>x\<close> and \<^verbatim>\<open>y\<close> of the data cell live in an explicit store, so that
    the model and the optimizer refer to the same parameter objects; the other
    tensors are new values that nothing mutates (\<^verbatim>\<open>x[rand_perm]\<close> copies);
  \<^item> the random number generator, automatic differentiation and the update rule of
    the optimizer are external algorithms and are taken as parameters.

  The cells run once, in the order of the notebook, in a new kernel.  The cell that
  prints the noise of one example and the cells that plot or print results only read
  the state and are left out.
\<close>

section \<open>Exceptions\<close>

datatype error = RuntimeError | IndexError | TypeError | AttributeError | NameError | ValueError

section \<open>Tensors\<close>

datatype dtype = Float32 | Float64 | Int64

datatype device = CPU | CUDA nat

datatype tensor =
  Tensor (dtype: dtype) (device: device) (shape: "nat list") (elems: "real list")

definition is_floating :: "dtype \<Rightarrow> bool" where
  "is_floating d \<longleftrightarrow> d = Float32 \<or> d = Float64"

text \<open>A tensor as the constructors of the notebook make it: \<^verbatim>\<open>float32\<close>, on the CPU.\<close>

definition float_cpu :: "tensor \<Rightarrow> bool" where
  "float_cpu t \<longleftrightarrow> dtype t = Float32 \<and> device t = CPU"

definition numel :: "nat list \<Rightarrow> nat" where
  "numel s = prod_list s"

definition wf_tensor :: "tensor \<Rightarrow> bool" where
  "wf_tensor t \<longleftrightarrow> length (elems t) = numel (shape t)"

text \<open>\<^verbatim>\<open>torch.zeros(shape)\<close>, with the default dtype on the default device.\<close>

definition zeros :: "nat list \<Rightarrow> tensor" where
  "zeros s = Tensor Float32 CPU s (replicate (numel s) 0)"

text \<open>
  Random tensors: \<open>sample\<close> draws one number from the generator state and returns
  the next state; \<^verbatim>\<open>torch.randn(shape)\<close> and \<^verbatim>\<open>torch.rand(shape)\<close> draw one number
  per element, for a tensor of the default dtype on the default device.
\<close>

fun draw :: "('g \<Rightarrow> real \<times> 'g) \<Rightarrow> nat \<Rightarrow> 'g \<Rightarrow> real list \<times> 'g" where
  "draw sample 0 g = ([], g)"
| "draw sample (Suc n) g =
     (case sample g of (v, g') \<Rightarrow>
        (case draw sample n g' of (vs, g'') \<Rightarrow> (v # vs, g'')))"

definition rand_tensor :: "('g \<Rightarrow> real \<times> 'g) \<Rightarrow> nat list \<Rightarrow> 'g \<Rightarrow> tensor \<times> 'g" where
  "rand_tensor sample s g = (case draw sample (numel s) g of (vs, g') \<Rightarrow> (Tensor Float32 CPU s vs, g'))"

text \<open>Row-major position of a multi-index, and all multi-indices of a shape in order.\<close>

definition offset :: "nat list \<Rightarrow> nat list \<Rightarrow> nat" where
  "offset s idx = foldl (\<lambda>acc (d, i). acc * d + i) 0 (zip s idx)"

fun indices :: "nat list \<Rightarrow> nat list list" where
  "indices [] = [[]]"
| "indices (d # ds) = concat (map (\<lambda>i. map ((#) i) (indices ds)) [0..<d])"

text \<open>
  Broadcasting aligns two shapes at their last dimension; two sizes are compatible
  when they are equal or one of them is 1.  \<open>broadcast_rev\<close> works on the reversed
  shapes.
\<close>

fun broadcast_rev :: "nat list \<Rightarrow> nat list \<Rightarrow> error + nat list" where
  "broadcast_rev [] bs = Inr bs"
| "broadcast_rev (a # as) [] = Inr (a # as)"
| "broadcast_rev (a # as) (b # bs) =
     (if a = b \<or> b = 1 then map_sum id ((#) a) (broadcast_rev as bs)
      else if a = 1 then map_sum id ((#) b) (broadcast_rev as bs)
      else Inl RuntimeError)"

definition broadcast_shapes :: "nat list \<Rightarrow> nat list \<Rightarrow> error + nat list" where
  "broadcast_shapes sa sb = map_sum id rev (broadcast_rev (rev sa) (rev sb))"

text \<open>
  Reading a tensor at a multi-index of a shape it broadcasts to: leading dimensions
  it does not have are dropped, and a dimension of size 1 is read at 0.
\<close>

definition bindex :: "nat list \<Rightarrow> nat list \<Rightarrow> nat list" where
  "bindex s idx = map (\<lambda>(d, i). if d = 1 then 0 else i) (zip s (drop (length idx - length s) idx))"

definition read_at :: "tensor \<Rightarrow> nat list \<Rightarrow> real" where
  "read_at t idx = elems t ! offset (shape t) (bindex (shape t) idx)"

text \<open>
  An operation that works element by element promotes the dtypes of its two
  arguments: to the larger of two floating dtypes, and to the floating one of a
  floating and an integer dtype.  When exactly one argument has no dimension, its
  dtype counts only if it is floating and the other is not.  The two arguments must
  be on the same device, except that a tensor without dimensions on the CPU goes with
  a tensor on any device.
\<close>

definition promote_types :: "dtype \<Rightarrow> dtype \<Rightarrow> dtype" where
  "promote_types d1 d2 =
     (if d1 = d2 then d1 else if d1 = Float64 \<or> d2 = Float64 then Float64 else Float32)"

definition result_type :: "tensor \<Rightarrow> tensor \<Rightarrow> dtype" where
  "result_type a b =
     (if (shape a = []) = (shape b = []) then promote_types (dtype a) (dtype b)
      else if shape a = []
      then (if is_floating (dtype b) then dtype b else promote_types (dtype a) (dtype b))
      else (if is_floating (dtype a) then dtype a else promote_types (dtype a) (dtype b)))"

definition result_device :: "tensor \<Rightarrow> tensor \<Rightarrow> error + device" where
  "result_device a b =
     (if device a = device b then Inr (device a)
      else if shape a = [] \<and> device a = CPU then Inr (device b)
      else if shape b = [] \<and> device b = CPU then Inr (device a)
      else Inl RuntimeError)"

definition pointwise :: "(real \<Rightarrow> real \<Rightarrow> real) \<Rightarrow> tensor \<Rightarrow> tensor \<Rightarrow> error + tensor" where
  "pointwise f a b =
     (case result_device a b of
        Inl e \<Rightarrow> Inl e
      | Inr dv \<Rightarrow>
          (case broadcast_shapes (shape a) (shape b) of
             Inl e \<Rightarrow> Inl e
           | Inr s \<Rightarrow>
               Inr (Tensor (result_type a b) dv s
                      (map (\<lambda>idx. f (read_at a idx) (read_at b idx)) (indices s)))))"

text \<open>\<^verbatim>\<open>a + b\<close> on tensors.\<close>

definition add :: "tensor \<Rightarrow> tensor \<Rightarrow> error + tensor" where
  "add a b = pointwise (+) a b"

text \<open>
  \<^verbatim>\<open>torch.matmul(a, b)\<close>.  The product does not promote dtypes: the two arguments
  must have the same dtype and be on the same device, and integer tensors are
  multiplied on the CPU only.  Both arguments need at least one dimension.  A
  one-dimensional first argument is treated as a row (a dimension 1 is put in front
  and removed from the result), a one-dimensional second argument as a column (a
  dimension 1 is appended and removed).  The last dimension of \<open>a\<close> must equal the
  last but one of \<open>b\<close>; the dimensions before the last two are batch dimensions and
  are broadcast.
\<close>

definition matmul :: "tensor \<Rightarrow> tensor \<Rightarrow> error + tensor" where
  "matmul a b =
     (let sa = shape a; sb = shape b in
      if dtype a \<noteq> dtype b \<or> device a \<noteq> device b then Inl RuntimeError
      else if dtype a = Int64 \<and> device a \<noteq> CPU then Inl RuntimeError
      else if sa = [] \<or> sb = [] then Inl RuntimeError
      else
        let sa' = (if length sa = 1 then 1 # sa else sa);
            sb' = (if length sb = 1 then sb @ [1] else sb);
            n = last (butlast sa'); k = last sa';
            k' = last (butlast sb'); m = last sb'
        in if k \<noteq> k' then Inl RuntimeError
           else
             (case broadcast_shapes (butlast (butlast sa')) (butlast (butlast sb')) of
                Inl e \<Rightarrow> Inl e
              | Inr batch \<Rightarrow>
                  let cell = (\<lambda>idx.
                        let bi = take (length batch) idx;
                            i = idx ! length batch;
                            j = idx ! Suc (length batch)
                        in sum_list (map (\<lambda>l.
                                   read_at (Tensor (dtype a) (device a) sa' (elems a)) (bi @ [i, l]) *
                                   read_at (Tensor (dtype b) (device b) sb' (elems b)) (bi @ [l, j]))
                                [0..<k]));
                      out = batch @ (if length sa = 1 then [] else [n])
                                  @ (if length sb = 1 then [] else [m])
                  in Inr (Tensor (dtype a) (device a) out (map cell (indices (batch @ [n, m]))))))"

section \<open>The store of tensor objects\<close>

text \<open>
  A tensor object has its data, its accumulated gradient (\<^verbatim>\<open>.grad\<close>, initially
  \<^verbatim>\<open>None\<close>) and the flag \<^verbatim>\<open>requires_grad\<close>.  An address is a position in the store.
\<close>

record tobj =
  data :: tensor
  grad :: "tensor option"
  requires_grad :: bool

type_synonym addr = nat
type_synonym store = "tobj list"

definition alloc :: "store \<Rightarrow> tobj \<Rightarrow> addr \<times> store" where
  "alloc h v = (length h, h @ [v])"

text \<open>\<^verbatim>\<open>torch.nn.Parameter(t)\<close>: a new tensor object that requires a gradient.\<close>

definition Parameter_new :: "store \<Rightarrow> tensor \<Rightarrow> addr \<times> store" where
  "Parameter_new h t = alloc h \<lparr>data = t, grad = None, requires_grad = True\<rparr>"

section \<open>\<^verbatim>\<open>torch.nn.Module\<close>\<close>

text \<open>
  The values assigned to attributes of a module are plain functions, Parameters and
  modules.  A module that is the value of an attribute is seen through what it offers
  to the module that holds it: what its \<^verbatim>\<open>parameters()\<close> yields, and what calling it
  returns in a store.
\<close>

record ('i, 'o) modview =
  view_parameters :: "addr list"
  view_call :: "store \<Rightarrow> 'i \<Rightarrow> error + 'o"

datatype ('i, 'o) obj =
  Callable "'i \<Rightarrow> error + 'o" | Parameter addr | Module_value "('i, 'o) modview"

text \<open>
  A module keeps the Parameters assigned to it in the ordered dictionary
  \<^verbatim>\<open>_parameters\<close>, the modules assigned to it in the ordered dictionary \<^verbatim>\<open>_modules\<close>, and
  every other value in its instance dictionary.
\<close>

record ('i, 'o) module =
  reg_parameters :: "(string \<times> addr) list"
  reg_modules :: "(string \<times> ('i, 'o) modview) list"
  plain_attrs :: "(string \<times> ('i \<Rightarrow> error + 'o)) list"

text \<open>\<^verbatim>\<open>super().__init__()\<close>.\<close>

definition Module_init :: "('i, 'o) module" where
  "Module_init = \<lparr>reg_parameters = [], reg_modules = [], plain_attrs = []\<rparr>"

text \<open>
  \<^verbatim>\<open>self.name = value\<close> (\<^verbatim>\<open>Module.__setattr__\<close>): a Parameter is registered under
  the name, and a plain attribute or a submodule of that name removed.  Another value
  is refused for the name of a registered parameter.  A module is then registered as
  a submodule under the name (and a plain attribute of that name removed); any other
  value is refused for the name of a submodule and stored as a plain attribute
  otherwise.
\<close>

definition setattr :: "('i, 'o) module \<Rightarrow> string \<Rightarrow> ('i, 'o) obj \<Rightarrow> error + ('i, 'o) module" where
  "setattr m name v =
     (case v of
        Parameter a \<Rightarrow>
          Inr (m\<lparr>plain_attrs := AList.delete name (plain_attrs m),
                 reg_modules := AList.delete name (reg_modules m),
                 reg_parameters := AList.update name a (reg_parameters m)\<rparr>)
      | Module_value r \<Rightarrow>
          if map_of (reg_parameters m) name \<noteq> None then Inl TypeError
          else Inr (m\<lparr>plain_attrs := AList.delete name (plain_attrs m),
                      reg_modules := AList.update name r (reg_modules m)\<rparr>)
      | Callable f \<Rightarrow>
          if map_of (reg_parameters m) name \<noteq> None then Inl TypeError
          else if map_of (reg_modules m) name \<noteq> None then Inl TypeError
          else Inr (m\<lparr>plain_attrs := AList.update name f (plain_attrs m)\<rparr>))"

text \<open>
  \<^verbatim>\<open>self.name\<close>: the instance dictionary first, then (\<^verbatim>\<open>Module.__getattr__\<close>) the
  registered parameters, then the submodules.
\<close>

definition getattr :: "('i, 'o) module \<Rightarrow> string \<Rightarrow> error + ('i, 'o) obj" where
  "getattr m name =
     (case map_of (plain_attrs m) name of
        Some f \<Rightarrow> Inr (Callable f)
      | None \<Rightarrow>
          (case map_of (reg_parameters m) name of
             Some a \<Rightarrow> Inr (Parameter a)
           | None \<Rightarrow>
               (case map_of (reg_modules m) name of
                  Some r \<Rightarrow> Inr (Module_value r)
                | None \<Rightarrow> Inl AttributeError)))"

text \<open>
  \<^verbatim>\<open>module.parameters()\<close>: the registered parameters in registration order, then
  those of the submodules in turn, each object once.
\<close>

fun dedup :: "'a list \<Rightarrow> 'a list" where
  "dedup [] = []"
| "dedup (x # xs) = x # dedup (filter (\<lambda>y. y \<noteq> x) xs)"

definition parameters :: "('i, 'o) module \<Rightarrow> addr list" where
  "parameters m =
     dedup (map snd (reg_parameters m) @ concat (map (\<lambda>(name, r). view_parameters r) (reg_modules m)))"

text \<open>A tensor-valued attribute used as an operand: the data of the parameter.\<close>

definition tensor_attr :: "store \<Rightarrow> ('i, 'o) module \<Rightarrow> string \<Rightarrow> error + tensor" where
  "tensor_attr h m name =
     (case getattr m name of
        Inl e \<Rightarrow> Inl e
      | Inr (Callable f) \<Rightarrow> Inl TypeError
      | Inr (Module_value r) \<Rightarrow> Inl TypeError
      | Inr (Parameter a) \<Rightarrow> Inr (data (h ! a)))"

section \<open>The class \<^verbatim>\<open>Linear\<close>\<close>

text \<open>
  \<^verbatim>\<open>
  def __init__(self, units=32, input_dim=32):
      super().__init__()
      self.w = torch.nn.Parameter(torch.randn((input_dim, units)))
      self.b = torch.nn.Parameter(torch.zeros((units,)))
  \<close>
  The constructor runs in a store \<open>h\<close> with generator state \<open>g\<close> and returns the new
  module with the extended store and the next generator state.
\<close>

definition Linear_init ::
  "('g \<Rightarrow> real \<times> 'g) \<Rightarrow> nat \<Rightarrow> nat \<Rightarrow> store \<Rightarrow> 'g \<Rightarrow> error + (('i, 'o) module \<times> store \<times> 'g)" where
  "Linear_init normal units input_dim h g =
     (case rand_tensor normal [input_dim, units] g of (w0, g1) \<Rightarrow>
      case Parameter_new h w0 of (aw, h1) \<Rightarrow>
      case setattr Module_init ''w'' (Parameter aw) of
        Inl e \<Rightarrow> Inl e
      | Inr self1 \<Rightarrow>
          (case Parameter_new h1 (zeros [units]) of (ab, h2) \<Rightarrow>
           case setattr self1 ''b'' (Parameter ab) of
             Inl e \<Rightarrow> Inl e
           | Inr self2 \<Rightarrow> Inr (self2, h2, g1)))"

text \<open>
  \<^verbatim>\<open>
  def forward(self, x):
      return torch.matmul(x, self.w) + self.b
  \<close>
\<close>

definition Linear_forward :: "store \<Rightarrow> ('i, 'o) module \<Rightarrow> tensor \<Rightarrow> error + tensor" where
  "Linear_forward h self x =
     (case tensor_attr h self ''w'' of
        Inl e \<Rightarrow> Inl e
      | Inr w \<Rightarrow>
          (case matmul x w of
             Inl e \<Rightarrow> Inl e
           | Inr xw \<Rightarrow>
               (case tensor_attr h self ''b'' of
                  Inl e \<Rightarrow> Inl e
                | Inr b \<Rightarrow> add xw b)))"

section \<open>The class \<^verbatim>\<open>MyLambda\<close>\<close>

text \<open>
  \<^verbatim>\<open>
  def __init__(self, func):
      super().__init__()
      self.func = func
  def forward(self, inputs):
      return self.func(inputs)
  \<close>
\<close>

definition MyLambda_init :: "('i, 'o) obj \<Rightarrow> error + ('i, 'o) module" where
  "MyLambda_init func = setattr Module_init ''func'' func"

text \<open>\<^verbatim>\<open>v(inputs)\<close> for a value \<open>v\<close>: a function is applied, a module is called.\<close>

definition call_obj :: "store \<Rightarrow> ('i, 'o) obj \<Rightarrow> 'i \<Rightarrow> error + 'o" where
  "call_obj h v inputs =
     (case v of
        Callable f \<Rightarrow> f inputs
      | Module_value r \<Rightarrow> view_call r h inputs
      | Parameter a \<Rightarrow> Inl TypeError)"

definition MyLambda_forward :: "store \<Rightarrow> ('i, 'o) module \<Rightarrow> 'i \<Rightarrow> error + 'o" where
  "MyLambda_forward h self inputs =
     (case getattr self ''func'' of
        Inl e \<Rightarrow> Inl e
      | Inr v \<Rightarrow> call_obj h v inputs)"

text \<open>
  A \<^verbatim>\<open>Linear\<close> layer as the value of an attribute of another module: calling a module
  runs its \<^verbatim>\<open>forward\<close>.
\<close>

definition Linear_value :: "('i, 'o) module \<Rightarrow> (tensor, tensor) modview" where
  "Linear_value self =
     \<lparr>view_parameters = parameters self, view_call = (\<lambda>h inputs. Linear_forward h self inputs)\<rparr>"

section \<open>More tensor operations used by the notebook\<close>

text \<open>
  \<^verbatim>\<open>t * c\<close>, \<^verbatim>\<open>c * t\<close> and \<^verbatim>\<open>t + c\<close> for a Python integer \<open>c\<close>, and other operations
  that work on each element alone: the result has the dtype and the device of \<open>t\<close>.
\<close>

definition map_tensor :: "(real \<Rightarrow> real) \<Rightarrow> tensor \<Rightarrow> tensor" where
  "map_tensor f t = Tensor (dtype t) (device t) (shape t) (map f (elems t))"

text \<open>
  \<^verbatim>\<open>t[i]\<close> for a Python integer \<open>0 \<le> i\<close>: the \<open>i\<close>-th slice along the first
  dimension.  \<^verbatim>\<open>t[idx]\<close> for a one-dimensional tensor \<open>idx\<close> of indices: a new tensor
  made of the slices at these indices.  Both have the dtype and the device of \<open>t\<close>.
\<close>

definition slice :: "tensor \<Rightarrow> nat \<Rightarrow> real list" where
  "slice t i = take (numel (tl (shape t))) (drop (i * numel (tl (shape t))) (elems t))"

definition select0 :: "tensor \<Rightarrow> nat \<Rightarrow> error + tensor" where
  "select0 t i =
     (case shape t of
        [] \<Rightarrow> Inl IndexError
      | d # ds \<Rightarrow> if i < d then Inr (Tensor (dtype t) (device t) ds (slice t i))
                  else Inl IndexError)"

definition index0 :: "tensor \<Rightarrow> nat list \<Rightarrow> error + tensor" where
  "index0 t idx =
     (case shape t of
        [] \<Rightarrow> Inl IndexError
      | d # ds \<Rightarrow>
          if list_all (\<lambda>i. i < d) idx
          then Inr (Tensor (dtype t) (device t) (length idx # ds) (concat (map (slice t) idx)))
          else Inl IndexError)"

text \<open>
  \<^verbatim>\<open>torch.nn.MSELoss(reduction='sum')\<close>: the sum of the squared differences of the
  (broadcast) arguments, a tensor without dimensions; the loss is computed for
  floating dtypes only.  \<^verbatim>\<open>t.item()\<close> is the number held by a tensor of one element.
\<close>

definition MSELoss_sum :: "tensor \<Rightarrow> tensor \<Rightarrow> error + tensor" where
  "MSELoss_sum input target =
     (case pointwise (\<lambda>a b. (a - b)\<^sup>2) input target of
        Inl e \<Rightarrow> Inl e
      | Inr d \<Rightarrow>
          if is_floating (dtype d)
          then Inr (Tensor (dtype d) (device d) [] [sum_list (elems d)])
          else Inl RuntimeError)"

definition item :: "tensor \<Rightarrow> error + real" where
  "item t = (case elems t of [v] \<Rightarrow> Inr v | _ \<Rightarrow> Inl ValueError)"

section \<open>The external algorithms\<close>

text \<open>
  \<^item> \<open>normal_sample\<close>, \<open>uniform_sample\<close>: one draw of \<^verbatim>\<open>torch.randn\<close>, \<^verbatim>\<open>torch.rand\<close>;
  \<^item> \<open>randperm_sample n\<close>: \<^verbatim>\<open>torch.randperm(n)\<close>;
  \<^item> \<open>autograd ps ins\<close>: automatic differentiation of a loss computed from leaves
    whose current data are \<open>ps\<close> and from the tensors \<open>ins\<close>, one gradient for each
    leaf;
  \<^item> \<open>adam_init\<close>: the internal state of a new \<^verbatim>\<open>torch.optim.Adam(..., lr=1e-2)\<close>;
  \<^item> \<open>adam_update st ps\<close>: one update; from the optimizer's state and the data and
    gradient of each of its parameters, the next state and the new elements of each
    parameter.
\<close>

record ('os, 'g) torch =
  normal_sample :: "'g \<Rightarrow> real \<times> 'g"
  uniform_sample :: "'g \<Rightarrow> real \<times> 'g"
  randperm_sample :: "nat \<Rightarrow> 'g \<Rightarrow> nat list \<times> 'g"
  autograd :: "tensor list \<Rightarrow> tensor list \<Rightarrow> tensor list"
  adam_init :: 'os
  adam_update :: "'os \<Rightarrow> (tensor \<times> tensor option) list \<Rightarrow> 'os \<times> real list list"

text \<open>
  What the notebook relies on from \<^verbatim>\<open>torch.randperm(n)\<close>: a permutation of
  \<open>0, \<dots>, n - 1\<close>.
\<close>

definition randperm_ok :: "('os, 'g) torch \<Rightarrow> bool" where
  "randperm_ok T \<longleftrightarrow> (\<forall>n g. mset (fst (randperm_sample T n g)) = mset [0..<n])"

section \<open>Optimizer and loss objects\<close>

text \<open>
  An optimizer holds the addresses of the parameters it was constructed with, and
  its internal state.  The constructor refuses an empty parameter list.
\<close>

record 'os optimizer =
  opt_params :: "addr list"
  opt_state :: 'os

definition Adam_init :: "('os, 'g) torch \<Rightarrow> addr list \<Rightarrow> error + 'os optimizer" where
  "Adam_init T ps =
     (if ps = [] then Inl ValueError else Inr \<lparr>opt_params = ps, opt_state = adam_init T\<rparr>)"

text \<open>
  A tensor computed from parameters remembers the graph it was computed from: the
  parameters that took part (the leaves) and the other tensors that went in.
\<close>

record gtensor =
  gval :: tensor
  gleaves :: "addr list"
  ginputs :: "tensor list"

text \<open>Writing one object of the store.\<close>

definition modify :: "addr \<Rightarrow> (tobj \<Rightarrow> tobj) \<Rightarrow> store \<Rightarrow> store" where
  "modify a f h = (if a < length h then h[a := f (h ! a)] else h)"

text \<open>
  \<^verbatim>\<open>optimizer.zero_grad()\<close>: the gradient of each parameter of the optimizer, where
  there is one, is filled with zeros in place (as the library did when the notebook was
  written; later versions reset it to \<^verbatim>\<open>None\<close>, and \<^verbatim>\<open>backward\<close> then leaves the same
  gradient).
\<close>

definition zero_grad :: "'os optimizer \<Rightarrow> store \<Rightarrow> store" where
  "zero_grad opt h =
     fold (\<lambda>a. modify a (\<lambda>p. p\<lparr>grad := map_option (map_tensor (\<lambda>v. 0)) (grad p)\<rparr>))
       (opt_params opt) h"

text \<open>
  \<^verbatim>\<open>loss.backward()\<close>: the gradient of the loss with respect to each leaf is added to
  the gradient of that leaf (or becomes it, where there is none yet).
\<close>

definition accumulate :: "tensor \<Rightarrow> tobj \<Rightarrow> tobj" where
  "accumulate g p =
     p\<lparr>grad := (case grad p of
                  None \<Rightarrow> Some g
                | Some g0 \<Rightarrow>
                    Some (Tensor (dtype g0) (device g0) (shape g0)
                            (map2 (+) (elems g0) (elems g))))\<rparr>"

definition backward :: "('os, 'g) torch \<Rightarrow> gtensor \<Rightarrow> store \<Rightarrow> store" where
  "backward T l h =
     fold (\<lambda>(a, g). modify a (accumulate g))
       (zip (gleaves l) (autograd T (map (\<lambda>a. data (h ! a)) (gleaves l)) (ginputs l)))
       h"

text \<open>
  \<^verbatim>\<open>optimizer.step()\<close>: the update rule computes new elements for the optimizer's
  parameters, which are written into the parameters in place (a parameter keeps its
  dtype, its device and its shape), and the next internal state.
\<close>

definition step :: "('os, 'g) torch \<Rightarrow> 'os optimizer \<Rightarrow> store \<Rightarrow> 'os optimizer \<times> store" where
  "step T opt h =
     (case adam_update T (opt_state opt) (map (\<lambda>a. (data (h ! a), grad (h ! a))) (opt_params opt)) of
        (st, new) \<Rightarrow>
          (opt\<lparr>opt_state := st\<rparr>,
           fold (\<lambda>(a, vs). modify a (\<lambda>p. p\<lparr>data := Tensor (dtype (data p)) (device (data p))
                                                           (shape (data p)) vs\<rparr>))
             (zip (opt_params opt) new) h))"

section \<open>The notebook\<close>

text \<open>
  The state of the notebook: the store, the generator, the variables of the data
  cell and of the training cell, and \<open>calls\<close>, the calls made to the model, the
  criterion and the optimizer so far, in order, each with the epoch and the batch
  number it was made in.  The variables \<^verbatim>\<open>x\<close> and \<^verbatim>\<open>y\<close> are the fields \<open>x_var\<close> and
  \<open>y_var\<close>.  A variable that is assigned only inside a loop is unbound (\<open>None\<close>)
  before.  The loop counters \<^verbatim>\<open>e\<close> and \<^verbatim>\<open>t\<close> are the arguments of the loop bodies.
\<close>

datatype call = Forward nat nat | Criterion nat nat | ZeroGrad nat nat | Backward nat nat
  | Step nat nat

record 'g env =
  e_mem :: store
  e_rng :: 'g
  e_n_batches :: nat
  e_batch_size :: nat
  e_epoches :: nat
  e_x :: addr
  e_y :: addr

record ('os, 'g) nb =
  mem :: store
  rng :: 'g
  n_batches :: nat
  batch_size :: nat
  epoches :: nat
  x_var :: addr
  y_var :: addr
  model :: "(tensor, tensor) module"
  optimizer :: "'os optimizer"
  history :: "real list"
  rand_perm :: "nat list option"
  x_perm :: "tensor option"
  y_perm :: "tensor option"
  y_pred :: "gtensor option"
  loss :: "gtensor option"
  calls :: "call list"

text \<open>
  \<^verbatim>\<open>
  n_batches = 64
  batch_size = 32
  epoches = 200
  x = torch.rand((n_batches, batch_size, 1)) * 100
  y = 3 * x + 5 # true params
  y += torch.rand(y.shape) # add noise
  \<close>
  The three constants are arguments of \<open>data_cell\<close>; \<open>notebook_data\<close> is the cell
  with the notebook's values.
\<close>

definition data_cell ::
  "('os, 'g) torch \<Rightarrow> nat \<Rightarrow> nat \<Rightarrow> nat \<Rightarrow> store \<Rightarrow> 'g \<Rightarrow> error + 'g env" where
  "data_cell T nbat bsz eps h g =
     (case rand_tensor (uniform_sample T) [nbat, bsz, 1] g of (r, g1) \<Rightarrow>
      case alloc h \<lparr>data = map_tensor (\<lambda>v. v * 100) r, grad = None, requires_grad = False\<rparr> of
        (ax, h1) \<Rightarrow>
      let y0 = map_tensor (\<lambda>v. v + 5) (map_tensor (\<lambda>v. 3 * v) (data (h1 ! ax))) in
      case rand_tensor (uniform_sample T) (shape y0) g1 of (noise, g2) \<Rightarrow>
      case add y0 noise of
        Inl er \<Rightarrow> Inl er
      | Inr y1 \<Rightarrow>
          (case alloc h1 \<lparr>data = y1, grad = None, requires_grad = False\<rparr> of (ay, h2) \<Rightarrow>
           Inr \<lparr>e_mem = h2, e_rng = g2, e_n_batches = nbat, e_batch_size = bsz,
                e_epoches = eps, e_x = ax, e_y = ay\<rparr>))"


text \<open>
  \<^verbatim>\<open>
  model = Linear(units=1, input_dim=1)
  criterion = torch.nn.MSELoss(reduction='sum')
  optimizer = torch.optim.Adam(model.parameters(), lr=1e-2)
  history = []
  \<close>
\<close>

definition prepare :: "('os, 'g) torch \<Rightarrow> 'g env \<Rightarrow> error + ('os, 'g) nb" where
  "prepare T E =
     (case Linear_init (normal_sample T) 1 1 (e_mem E) (e_rng E) of
        Inl er \<Rightarrow> Inl er
      | Inr (m, h, g) \<Rightarrow>
          (case Adam_init T (parameters m) of
             Inl er \<Rightarrow> Inl er
           | Inr opt \<Rightarrow>
               Inr \<lparr>mem = h, rng = g, n_batches = e_n_batches E, batch_size = e_batch_size E,
                    epoches = e_epoches E, x_var = e_x E, y_var = e_y E, model = m, optimizer = opt,
                    history = [], rand_perm = None, x_perm = None, y_perm = None,
                    y_pred = None, loss = None, calls = []\<rparr>))"

text \<open>A \<^verbatim>\<open>for\<close> loop over a list: the body runs for each element until one raises.\<close>

fun for_each :: "('i \<Rightarrow> 's \<Rightarrow> error + 's) \<Rightarrow> 'i list \<Rightarrow> 's \<Rightarrow> error + 's" where
  "for_each body [] s = Inr s"
| "for_each body (i # rest) s =
     (case body i s of Inl er \<Rightarrow> Inl er | Inr s' \<Rightarrow> for_each body rest s')"

text \<open>
  The body of the inner loop, one statement after the other:
  \<^verbatim>\<open>
  y_pred = model(x_perm[t])
  loss = criterion(y_pred, y_perm[t])
  optimizer.zero_grad()
  loss.backward()
  optimizer.step()
  \<close>
  Calling the model runs its \<^verbatim>\<open>forward\<close>.
\<close>

definition do_forward :: "nat \<Rightarrow> nat \<Rightarrow> ('os, 'g) nb \<Rightarrow> error + ('os, 'g) nb" where
  "do_forward e t s =
     (case x_perm s of
        None \<Rightarrow> Inl NameError
      | Some xp \<Rightarrow>
          (case select0 xp t of
             Inl er \<Rightarrow> Inl er
           | Inr xb \<Rightarrow>
               (case Linear_forward (mem s) (model s) xb of
                  Inl er \<Rightarrow> Inl er
                | Inr pred \<Rightarrow>
                    Inr (s\<lparr>y_pred := Some \<lparr>gval = pred, gleaves = parameters (model s),
                                                 ginputs = [xb]\<rparr>,
                           calls := calls s @ [Forward e t]\<rparr>))))"

definition do_loss :: "nat \<Rightarrow> nat \<Rightarrow> ('os, 'g) nb \<Rightarrow> error + ('os, 'g) nb" where
  "do_loss e t s =
     (case y_pred s of
        None \<Rightarrow> Inl NameError
      | Some pred \<Rightarrow>
          (case y_perm s of
             None \<Rightarrow> Inl NameError
           | Some yp \<Rightarrow>
               (case select0 yp t of
                  Inl er \<Rightarrow> Inl er
                | Inr yb \<Rightarrow>
                    (case MSELoss_sum (gval pred) yb of
                       Inl er \<Rightarrow> Inl er
                     | Inr l \<Rightarrow>
                         Inr (s\<lparr>loss := Some \<lparr>gval = l, gleaves = gleaves pred,
                                               ginputs = ginputs pred @ [yb]\<rparr>,
                                calls := calls s @ [Criterion e t]\<rparr>)))))"

definition do_zero_grad :: "nat \<Rightarrow> nat \<Rightarrow> ('os, 'g) nb \<Rightarrow> error + ('os, 'g) nb" where
  "do_zero_grad e t s =
     Inr (s\<lparr>mem := zero_grad (optimizer s) (mem s), calls := calls s @ [ZeroGrad e t]\<rparr>)"

definition do_backward :: "('os, 'g) torch \<Rightarrow> nat \<Rightarrow> nat \<Rightarrow> ('os, 'g) nb \<Rightarrow> error + ('os, 'g) nb" where
  "do_backward T e t s =
     (case loss s of
        None \<Rightarrow> Inl NameError
      | Some l \<Rightarrow> Inr (s\<lparr>mem := backward T l (mem s), calls := calls s @ [Backward e t]\<rparr>))"

definition do_step :: "('os, 'g) torch \<Rightarrow> nat \<Rightarrow> nat \<Rightarrow> ('os, 'g) nb \<Rightarrow> error + ('os, 'g) nb" where
  "do_step T e t s =
     (case step T (optimizer s) (mem s) of
        (opt, h) \<Rightarrow> Inr (s\<lparr>optimizer := opt, mem := h, calls := calls s @ [Step e t]\<rparr>))"

definition batch_body :: "('os, 'g) torch \<Rightarrow> nat \<Rightarrow> nat \<Rightarrow> ('os, 'g) nb \<Rightarrow> error + ('os, 'g) nb" where
  "batch_body T e t s =
     for_each (\<lambda>stmt. stmt)
       [do_forward e t, do_loss e t, do_zero_grad e t, do_backward T e t, do_step T e t] s"

text \<open>
  The body of the outer loop:
  \<^verbatim>\<open>
  rand_perm = torch.randperm(n_batches)
  x_perm = x[rand_perm]
  y_perm = y[rand_perm]
  for t in range(n_batches):
      ...
  history.append(loss.item())
  \<close>
\<close>

definition shuffle :: "('os, 'g) torch \<Rightarrow> ('os, 'g) nb \<Rightarrow> error + ('os, 'g) nb" where
  "shuffle T s =
     (case randperm_sample T (n_batches s) (rng s) of (p, g) \<Rightarrow>
      case index0 (data (mem s ! x_var s)) p of
        Inl er \<Rightarrow> Inl er
      | Inr xp \<Rightarrow>
          (case index0 (data (mem s ! y_var s)) p of
             Inl er \<Rightarrow> Inl er
           | Inr yp \<Rightarrow>
               Inr (s\<lparr>rng := g, rand_perm := Some p, x_perm := Some xp, y_perm := Some yp\<rparr>)))"

definition append_loss :: "('os, 'g) nb \<Rightarrow> error + ('os, 'g) nb" where
  "append_loss s =
     (case loss s of
        None \<Rightarrow> Inl NameError
      | Some l \<Rightarrow>
          (case item (gval l) of
             Inl er \<Rightarrow> Inl er
           | Inr v \<Rightarrow> Inr (s\<lparr>history := history s @ [v]\<rparr>)))"

definition epoch_body :: "('os, 'g) torch \<Rightarrow> nat \<Rightarrow> ('os, 'g) nb \<Rightarrow> error + ('os, 'g) nb" where
  "epoch_body T e s =
     (case shuffle T s of
        Inl er \<Rightarrow> Inl er
      | Inr s1 \<Rightarrow>
          (case for_each (batch_body T e) [0..<n_batches s1] s1 of
             Inl er \<Rightarrow> Inl er
           | Inr s2 \<Rightarrow> append_loss s2))"

definition train :: "('os, 'g) torch \<Rightarrow> ('os, 'g) nb \<Rightarrow> error + ('os, 'g) nb" where
  "train T s = for_each (epoch_body T) [0..<epoches s] s"

text \<open>The training cell, and the two cells one after the other in a new store.\<close>

definition training_cell :: "('os, 'g) torch \<Rightarrow> 'g env \<Rightarrow> error + ('os, 'g) nb" where
  "training_cell T E = (case prepare T E of Inl er \<Rightarrow> Inl er | Inr s \<Rightarrow> train T s)"

definition cells :: "('os, 'g) torch \<Rightarrow> nat \<Rightarrow> nat \<Rightarrow> nat \<Rightarrow> 'g \<Rightarrow> error + ('os, 'g) nb" where
  "cells T nbat bsz eps g =
     (case data_cell T nbat bsz eps [] g of Inl er \<Rightarrow> Inl er | Inr E \<Rightarrow> training_cell T E)"


text \<open>
  An instance of the external algorithms, for examples: the generator state counts
  the draws, every normal draw is 1, the uniform draws are 0 and 1/2 in turn, a
  permutation is drawn in descending order, every gradient is a tensor of ones, and
  the update subtracts a hundredth of the gradient (the optimizer has no state of its
  own).
\<close>

definition example_torch :: "(unit, nat) torch" where
  "example_torch =
     \<lparr>normal_sample = (\<lambda>g. (1, Suc g)),
      uniform_sample = (\<lambda>g. (real (g mod 2) / 2, Suc g)),
      randperm_sample = (\<lambda>n g. (rev [0..<n], Suc g)),
      autograd = (\<lambda>ps ins. map (map_tensor (\<lambda>v. 1)) ps),
      adam_init = (),
      adam_update = (\<lambda>st ps.
        (st, map (\<lambda>(d, gr). case gr of
                              None \<Rightarrow> elems d
                            | Some g' \<Rightarrow> map2 (\<lambda>v dv. v - dv / 100) (elems d) (elems g')) ps))\<rparr>"

text \<open>
  The state of a module in a store: its plain attributes, its submodules, and its
  parameters (its own and those of its submodules) with the objects they refer to.
\<close>

definition state_of ::
  "store \<Rightarrow> ('i, 'o) module \<Rightarrow>
     (string \<times> ('i \<Rightarrow> error + 'o)) list \<times> (string \<times> ('i, 'o) modview) list \<times> (addr \<times> tobj) list" where
  "state_of h m = (plain_attrs m, reg_modules m, map (\<lambda>a. (a, h ! a)) (parameters m))"

text \<open>
  What the training loop leaves as it is, between a state \<open>s\<close> and a later state
  \<open>s'\<close>: the variables of the data cell, the model, the parameters the optimizer
  refers to, the number of objects in the store, every object of the store that is
  not a parameter of the optimizer, and the dtype, the device, the shape and the flag
  of every object.
\<close>

definition frame :: "('os, 'g) nb \<Rightarrow> ('os, 'g) nb \<Rightarrow> bool" where
  "frame s s' \<longleftrightarrow>
     n_batches s' = n_batches s \<and> batch_size s' = batch_size s \<and> epoches s' = epoches s
     \<and> x_var s' = x_var s \<and> y_var s' = y_var s \<and> model s' = model s
     \<and> opt_params (optimizer s') = opt_params (optimizer s)
     \<and> length (mem s') = length (mem s)
     \<and> (\<forall>a. a \<notin> set (opt_params (optimizer s)) \<longrightarrow> mem s' ! a = mem s ! a)
     \<and> (\<forall>a. shape (data (mem s' ! a)) = shape (data (mem s ! a))
            \<and> dtype (data (mem s' ! a)) = dtype (data (mem s ! a))
            \<and> device (data (mem s' ! a)) = device (data (mem s ! a))
            \<and> requires_grad (mem s' ! a) = requires_grad (mem s ! a))"

text \<open>The calls of one batch, in the order the body of the inner loop makes them.\<close>

definition batch_calls :: "nat \<Rightarrow> nat \<Rightarrow> call list" where
  "batch_calls e t = [Forward e t, Criterion e t, ZeroGrad e t, Backward e t, Step e t]"

text \<open>The calls of one epoch of \<open>n\<close> batches.\<close>

definition epoch_calls :: "nat \<Rightarrow> nat \<Rightarrow> call list" where
  "epoch_calls n e = concat (map (batch_calls e) [0..<n])"

text \<open>
  The state after the five statements of the inner loop, when the forward pass on the
  batch inputs \<open>xb\<close> returned \<open>pred\<close> and the criterion against the batch targets \<open>yb\<close>
  returned \<open>l\<close>: the store has seen \<^verbatim>\<open>zero_grad\<close>, then \<^verbatim>\<open>backward\<close>, then \<^verbatim>\<open>step\<close>.
\<close>

definition after_batch :: "('os, 'g) torch \<Rightarrow> nat \<Rightarrow> nat \<Rightarrow> ('os, 'g) nb \<Rightarrow> tensor \<Rightarrow> tensor \<Rightarrow> tensor \<Rightarrow> tensor \<Rightarrow> ('os, 'g) nb" where
  "after_batch T e t s xb yb pred l =
     (let lo = \<lparr>gval = l, gleaves = parameters (model s), ginputs = [xb, yb]\<rparr>;
          h = backward T lo (zero_grad (optimizer s) (mem s))
      in s\<lparr>y_pred := Some \<lparr>gval = pred, gleaves = parameters (model s), ginputs = [xb]\<rparr>,
            loss := Some lo,
            mem := snd (step T (optimizer s) h),
            optimizer := fst (step T (optimizer s) h),
            calls := calls s @ batch_calls e t\<rparr>)"

text \<open>
  A state in which the loop can run: the model is a \<^verbatim>\<open>Linear\<close> layer whose \<^verbatim>\<open>w\<close> and
  \<^verbatim>\<open>b\<close> have the shapes of \<^verbatim>\<open>Linear(units=1, input_dim=1)\<close> and are the parameters of
  the optimizer; \<^verbatim>\<open>x\<close> and \<^verbatim>\<open>y\<close> are other objects than \<^verbatim>\<open>w\<close> and \<^verbatim>\<open>b\<close>, have the
  shape \<open>(n_batches, batch_size, 1)\<close> and as many elements as the shape needs; the
  four tensors are \<^verbatim>\<open>float32\<close> tensors on the CPU.
\<close>

definition trainable :: "('os, 'g) nb \<Rightarrow> bool" where
  "trainable s \<longleftrightarrow>
     (\<exists>aw ab. aw \<noteq> ab
        \<and> model s = \<lparr>reg_parameters = [(''w'', aw), (''b'', ab)], reg_modules = [], plain_attrs = []\<rparr>
        \<and> opt_params (optimizer s) = [aw, ab]
        \<and> shape (data (mem s ! aw)) = [1, 1] \<and> shape (data (mem s ! ab)) = [1]
        \<and> float_cpu (data (mem s ! aw)) \<and> float_cpu (data (mem s ! ab))
        \<and> x_var s \<noteq> aw \<and> x_var s \<noteq> ab \<and> y_var s \<noteq> aw \<and> y_var s \<noteq> ab)
     \<and> shape (data (mem s ! x_var s)) = [n_batches s, batch_size s, 1]
     \<and> shape (data (mem s ! y_var s)) = [n_batches s, batch_size s, 1]
     \<and> float_cpu (data (mem s ! x_var s)) \<and> float_cpu (data (mem s ! y_var s))
     \<and> wf_tensor (data (mem s ! x_var s)) \<and> wf_tensor (data (mem s ! y_var s))"

text \<open>
  The loss of the last batch of the epoch \<open>e\<close> that starts in the state \<open>s\<close>: the
  number held by the tensor that the criterion returns when the epoch has shuffled,
  has run all batches but the last, and has made the forward pass for the last one.
\<close>

definition last_batch_loss :: "('os, 'g) torch \<Rightarrow> nat \<Rightarrow> ('os, 'g) nb \<Rightarrow> error + real" where
  "last_batch_loss T e s =
     (case shuffle T s of
        Inl er \<Rightarrow> Inl er
      | Inr sb \<Rightarrow>
          (case for_each (batch_body T e) [0..<n_batches sb - 1] sb of
             Inl er \<Rightarrow> Inl er
           | Inr sc \<Rightarrow>
               (case do_forward e (n_batches sb - 1) sc of
                  Inl er \<Rightarrow> Inl er
                | Inr sd \<Rightarrow>
                    (case do_loss e (n_batches sb - 1) sd of
                       Inl er \<Rightarrow> Inl er
                     | Inr se \<Rightarrow>
                         (case loss se of
                            None \<Rightarrow> Inl NameError
                          | Some l \<Rightarrow> item (gval l))))))"

section \<open>The training as it is described\<close>

text \<open>
  The training as the description of the notebook states it, written without the
  loops and the variables of the code, to be compared with the code.

  One batch, for the batch inputs \<open>xb\<close> and the batch targets \<open>yb\<close>, in an optimizer
  and a store: the forward pass of the model on the batch inputs, the loss of the
  prediction against the batch targets, then the gradients are zeroed, the loss is
  propagated back, and the optimizer makes one step.  The result is the optimizer and
  the store after the step, and the loss.
\<close>

definition spec_batch ::
  "('os, 'g) torch \<Rightarrow> (tensor, tensor) module \<Rightarrow> tensor \<Rightarrow> tensor \<Rightarrow> 'os optimizer \<times> store \<Rightarrow>
     error + (('os optimizer \<times> store) \<times> tensor)" where
  "spec_batch T m xb yb os =
     (case Linear_forward (snd os) m xb of
        Inl er \<Rightarrow> Inl er
      | Inr pred \<Rightarrow>
          (case MSELoss_sum pred yb of
             Inl er \<Rightarrow> Inl er
           | Inr l \<Rightarrow>
               let zeroed = zero_grad (fst os) (snd os);
                   propagated =
                     backward T \<lparr>gval = l, gleaves = parameters m, ginputs = [xb, yb]\<rparr> zeroed
               in Inr (step T (fst os) propagated, l)))"

text \<open>
  The batches of a list one after the other, each in the optimizer and the store
  that the one before has left; the loss that is kept is that of the last batch.
\<close>

fun spec_batches ::
  "('os, 'g) torch \<Rightarrow> (tensor, tensor) module \<Rightarrow> (tensor \<times> tensor) list \<Rightarrow>
     ('os optimizer \<times> store) \<times> tensor option \<Rightarrow>
     error + (('os optimizer \<times> store) \<times> tensor option)" where
  "spec_batches T m [] r = Inr r"
| "spec_batches T m (b # rest) r =
     (case spec_batch T m (fst b) (snd b) (fst r) of
        Inl er \<Rightarrow> Inl er
      | Inr (os, l) \<Rightarrow> spec_batches T m rest (os, Some l))"

text \<open>Batch \<open>i\<close> of a tensor whose first dimension counts the batches.\<close>

definition batch_of :: "tensor \<Rightarrow> nat \<Rightarrow> tensor" where
  "batch_of t i = Tensor (dtype t) (device t) (tl (shape t)) (slice t i)"

text \<open>
  The epochs one after the other, on the inputs \<open>X\<close> and the targets \<open>Y\<close> of \<open>n\<close>
  batches.  An epoch draws one permutation \<open>p\<close> of the batch numbers and trains on the
  batches in the order of \<open>p\<close>, the input batch \<open>i\<close> always with the target batch
  \<open>i\<close>; the number held by the loss of its last batch is then appended to the
  history.  What is passed on is the optimizer with the store, the generator and the
  history.
\<close>

fun spec_epochs ::
  "('os, 'g) torch \<Rightarrow> (tensor, tensor) module \<Rightarrow> tensor \<Rightarrow> tensor \<Rightarrow> nat \<Rightarrow> nat \<Rightarrow>
     ('os optimizer \<times> store) \<times> 'g \<times> real list \<Rightarrow>
     error + (('os optimizer \<times> store) \<times> 'g \<times> real list)" where
  "spec_epochs T m X Y n 0 r = Inr r"
| "spec_epochs T m X Y n (Suc k) r =
     (case randperm_sample T n (fst (snd r)) of (p, g) \<Rightarrow>
      case spec_batches T m (map (\<lambda>i. (batch_of X i, batch_of Y i)) p) (fst r, None) of
        Inl er \<Rightarrow> Inl er
      | Inr (os, None) \<Rightarrow> Inl NameError
      | Inr (os, Some l) \<Rightarrow>
          (case item l of
             Inl er \<Rightarrow> Inl er
           | Inr v \<Rightarrow> spec_epochs T m X Y n k (os, g, snd (snd r) @ [v])))"

section \<open>Facts about tensors and the constructors\<close>

lemma draw_length: "length (fst (draw sample n g)) = n"
proof (induction n arbitrary: g)
  case 0
  then show ?case by simp
next
  case (Suc n)
  obtain v g' where a: "sample g = (v, g')" by (cases "sample g")
  obtain vs g'' where b: "draw sample n g' = (vs, g'')" by (cases "draw sample n g'")
  from Suc [of g'] b have "length vs = n" by simp
  with a b show ?case by simp
qed

lemma rand_tensor_shape: "shape (fst (rand_tensor sample s g)) = s"
  by (simp add: rand_tensor_def split: prod.splits)

lemma rand_tensor_float: "float_cpu (fst (rand_tensor sample s g))"
  by (simp add: rand_tensor_def float_cpu_def split: prod.splits)

lemma rand_tensor_wf: "wf_tensor (fst (rand_tensor sample s g))"
  using draw_length [of sample "numel s" g]
  by (cases "draw sample (numel s) g") (simp add: rand_tensor_def wf_tensor_def)

lemma Linear_init_eq:
  "Linear_init normal units input_dim h g =
     Inr (\<lparr>reg_parameters = [(''w'', length h), (''b'', Suc (length h))], reg_modules = [], plain_attrs = []\<rparr>,
          h @ [\<lparr>data = fst (rand_tensor normal [input_dim, units] g), grad = None, requires_grad = True\<rparr>,
               \<lparr>data = zeros [units], grad = None, requires_grad = True\<rparr>],
          snd (rand_tensor normal [input_dim, units] g))"
  by (simp add: Linear_init_def Parameter_new_def alloc_def setattr_def Module_init_def
      split: prod.splits)

lemma indices_length: "length (indices s) = numel s"
  by (induction s) (simp_all add: numel_def length_concat comp_def sum_list_triv)

lemma zeros_wf: "wf_tensor (zeros s)"
  by (simp add: zeros_def wf_tensor_def)

lemma zeros_float: "float_cpu (zeros s)"
  by (simp add: zeros_def float_cpu_def)

lemma broadcast_rev_Nil2: "broadcast_rev s [] = Inr s"
  by (cases s) simp_all

lemma broadcast_shapes_Nil2: "broadcast_shapes s [] = Inr s"
  by (simp add: broadcast_shapes_def broadcast_rev_Nil2)

lemma broadcast_shapes_last: "broadcast_shapes (s @ [u]) [u] = Inr (s @ [u])"
  by (simp add: broadcast_shapes_def broadcast_rev_Nil2)

lemma broadcast_shapes_same: "broadcast_shapes s s = Inr s"
proof -
  have "broadcast_rev r r = Inr r" for r
    by (induction r) simp_all
  then show ?thesis by (simp add: broadcast_shapes_def)
qed

lemma pointwise_wf: "pointwise f a b = Inr c \<Longrightarrow> wf_tensor c"
  by (auto simp: pointwise_def wf_tensor_def indices_length split: sum.splits)

lemma pointwise_shape: "pointwise f a b = Inr c \<Longrightarrow> broadcast_shapes (shape a) (shape b) = Inr (shape c)"
  by (auto simp: pointwise_def split: sum.splits)

lemma result_same:
  assumes "dtype a = dtype b" "device a = device b"
  shows "result_type a b = dtype b" "result_device a b = Inr (device b)"
  using assms by (simp_all add: result_type_def result_device_def promote_types_def)

lemma matmul_kind:
  assumes "matmul a w = Inr out"
  shows "dtype a = dtype w" "device a = device w" "dtype out = dtype w" "device out = device w"
  using assms by (auto simp: matmul_def Let_def split: if_splits sum.splits)

lemma matmul_2d_defined:
  assumes "shape w = [k, m]" "is_floating (dtype w)"
  shows "(\<exists>out. matmul a w = Inr out) \<longleftrightarrow>
           dtype a = dtype w \<and> device a = device w \<and> shape a \<noteq> [] \<and> last (shape a) = k"
  using assms
  by (auto simp: matmul_def Let_def broadcast_shapes_Nil2 is_floating_def)

lemma matmul_2d_shape:
  assumes "shape w = [k, m]" "matmul a w = Inr out"
  shows "shape out = butlast (shape a) @ [m] \<and> wf_tensor out"
proof (cases "length (shape a) = 1")
  case True
  then obtain d where "shape a = [d]" by (cases "shape a") auto
  with assms show ?thesis
    by (auto simp: matmul_def Let_def broadcast_shapes_Nil2 wf_tensor_def indices_length numel_def
        split: if_splits)
next
  case False
  from assms(2) have ne0: "shape a \<noteq> []"
    by (auto simp: matmul_def Let_def split: if_splits)
  with False have ne: "shape a \<noteq> []" "butlast (shape a) \<noteq> []"
    by (cases "shape a"; simp)+
  then have eq: "butlast (butlast (shape a)) @ [last (butlast (shape a))] = butlast (shape a)"
    by simp
  have "butlast (butlast (shape a)) @ [last (butlast (shape a)), m] = butlast (shape a) @ [m]"
    using eq by (metis append_Cons append_Nil append_assoc)
  with assms False ne show ?thesis
    by (auto simp: matmul_def Let_def broadcast_shapes_Nil2 wf_tensor_def indices_length
        split: if_splits)
qed

lemma Linear_getattr:
  "getattr \<lparr>reg_parameters = [(''w'', aw), (''b'', ab)], reg_modules = [], plain_attrs = []\<rparr> ''w'' = Inr (Parameter aw)"
  "getattr \<lparr>reg_parameters = [(''w'', aw), (''b'', ab)], reg_modules = [], plain_attrs = []\<rparr> ''b'' = Inr (Parameter ab)"
  by (simp_all add: getattr_def)

lemma Linear_forward_eq:
  "Linear_forward h \<lparr>reg_parameters = [(''w'', aw), (''b'', ab)], reg_modules = [], plain_attrs = []\<rparr> x =
     (case matmul x (data (h ! aw)) of Inl e \<Rightarrow> Inl e | Inr xw \<Rightarrow> add xw (data (h ! ab)))"
  by (simp add: Linear_forward_def tensor_attr_def Linear_getattr split: sum.splits)

lemma Linear_parameters:
  "aw \<noteq> ab \<Longrightarrow> parameters \<lparr>reg_parameters = [(''w'', aw), (''b'', ab)], reg_modules = [], plain_attrs = []\<rparr> = [aw, ab]"
  by (simp add: parameters_def)

lemma matmul_1_11:
  "is_floating dt \<Longrightarrow>
     matmul (Tensor dt dv [1] [xv]) (Tensor dt dv [1, 1] [wv]) = Inr (Tensor dt dv [1] [xv * wv])"
  by (auto simp: matmul_def broadcast_shapes_def read_at_def bindex_def offset_def Let_def
      is_floating_def)

lemma add_1_1: "add (Tensor dt dv [1] [u]) (Tensor dt dv [1] [bv]) = Inr (Tensor dt dv [1] [u + bv])"
  by (simp add: add_def pointwise_def broadcast_shapes_def read_at_def bindex_def offset_def
      result_same)

section \<open>Facts about the store\<close>

lemma modify_length: "length (modify a f h) = length h"
  by (simp add: modify_def)

lemma modify_other: "b \<noteq> a \<Longrightarrow> modify a f h ! b = h ! b"
  by (simp add: modify_def)

lemma modify_prop:
  assumes "\<And>p. P (f p) = P p"
  shows "P (modify a f h ! b) = P (h ! b)"
  using assms by (cases "a = b") (simp_all add: modify_def)

lemma fold_modify_length: "length (fold (\<lambda>(a, v). modify a (f v)) xs h) = length h"
  by (induction xs arbitrary: h) (auto simp: modify_length)

lemma fold_modify_other:
  "b \<notin> fst ` set xs \<Longrightarrow> fold (\<lambda>(a, v). modify a (f v)) xs h ! b = h ! b"
  by (induction xs arbitrary: h) (auto simp: modify_other)

lemma fold_modify_prop:
  assumes "\<And>v p. P (f v p) = P p"
  shows "P (fold (\<lambda>(a, v). modify a (f v)) xs h ! b) = P (h ! b)"
proof (induction xs arbitrary: h)
  case Nil
  then show ?case by simp
next
  case (Cons x xs)
  obtain a v where x: "x = (a, v)" by (cases x)
  have "P (modify a (f v) h ! b) = P (h ! b)"
    by (rule modify_prop) (rule assms)
  with Cons [of "modify a (f v) h"] show ?case by (simp add: x)
qed

lemma zero_grad_as_fold:
  "zero_grad opt h =
     fold (\<lambda>(a, v). modify a (\<lambda>p. p\<lparr>grad := map_option (map_tensor (\<lambda>v. 0)) (grad p)\<rparr>))
       (map (\<lambda>a. (a, ())) (opt_params opt)) h"
  by (simp add: zero_grad_def fold_map comp_def)

lemma zero_grad_length: "length (zero_grad opt h) = length h"
  by (simp add: zero_grad_as_fold fold_modify_length)

lemma zero_grad_other: "b \<notin> set (opt_params opt) \<Longrightarrow> zero_grad opt h ! b = h ! b"
  by (simp add: zero_grad_as_fold fold_modify_other image_image)

lemma zero_grad_data: "data (zero_grad opt h ! b) = data (h ! b)"
  unfolding zero_grad_as_fold by (rule fold_modify_prop) simp

lemma zero_grad_requires: "requires_grad (zero_grad opt h ! b) = requires_grad (h ! b)"
  unfolding zero_grad_as_fold by (rule fold_modify_prop) simp

lemma backward_length: "length (backward T l h) = length h"
  by (simp add: backward_def fold_modify_length)

lemma backward_other: "b \<notin> set (gleaves l) \<Longrightarrow> backward T l h ! b = h ! b"
  unfolding backward_def
  by (rule fold_modify_other) (auto dest: set_zip_leftD)

lemma backward_data: "data (backward T l h ! b) = data (h ! b)"
  unfolding backward_def by (rule fold_modify_prop) (simp add: accumulate_def)

lemma backward_requires: "requires_grad (backward T l h ! b) = requires_grad (h ! b)"
  unfolding backward_def by (rule fold_modify_prop) (simp add: accumulate_def)

lemma step_params: "opt_params (fst (step T opt h)) = opt_params opt"
  by (simp add: step_def split: prod.splits)

lemma step_length: "length (snd (step T opt h)) = length h"
  by (simp add: step_def fold_modify_length split: prod.splits)

lemma step_other: "b \<notin> set (opt_params opt) \<Longrightarrow> snd (step T opt h) ! b = h ! b"
  by (auto simp: step_def split: prod.splits intro!: fold_modify_other dest: set_zip_leftD)

lemma step_shape: "shape (data (snd (step T opt h) ! b)) = shape (data (h ! b))"
  by (auto simp: step_def split: prod.splits intro!: fold_modify_prop [where P = "\<lambda>p. shape (data p)"])

lemma step_dtype: "dtype (data (snd (step T opt h) ! b)) = dtype (data (h ! b))"
  by (auto simp: step_def split: prod.splits intro!: fold_modify_prop [where P = "\<lambda>p. dtype (data p)"])

lemma step_device: "device (data (snd (step T opt h) ! b)) = device (data (h ! b))"
  by (auto simp: step_def split: prod.splits intro!: fold_modify_prop [where P = "\<lambda>p. device (data p)"])

lemma step_grad: "grad (snd (step T opt h) ! b) = grad (h ! b)"
  by (auto simp: step_def split: prod.splits intro!: fold_modify_prop)

lemma step_requires: "requires_grad (snd (step T opt h) ! b) = requires_grad (h ! b)"
  by (auto simp: step_def split: prod.splits intro!: fold_modify_prop)

section \<open>Facts about the loops\<close>

lemma for_each_append:
  "for_each body (xs @ ys) s =
     (case for_each body xs s of Inl er \<Rightarrow> Inl er | Inr s' \<Rightarrow> for_each body ys s')"
  by (induction xs arbitrary: s) (auto split: sum.splits)

lemma for_each_snoc:
  "for_each body (xs @ [i]) s =
     (case for_each body xs s of Inl er \<Rightarrow> Inl er | Inr s' \<Rightarrow> body i s')"
  by (simp add: for_each_append split: sum.splits)

lemma for_each_upt_Suc:
  "for_each body [0..<Suc k] s =
     (case for_each body [0..<k] s of Inl er \<Rightarrow> Inl er | Inr s' \<Rightarrow> body k s')"
  by (simp add: for_each_snoc)

lemma frame_refl: "frame s s"
  by (simp add: frame_def)

lemma frame_trans: "frame s s' \<Longrightarrow> frame s' s'' \<Longrightarrow> frame s s''"
  by (simp add: frame_def)

lemma batch_body_Inr:
  "batch_body T e t s = Inr s' \<longleftrightarrow>
     (\<exists>xp yp xb yb pred l.
        x_perm s = Some xp \<and> y_perm s = Some yp
        \<and> select0 xp t = Inr xb \<and> select0 yp t = Inr yb
        \<and> Linear_forward (mem s) (model s) xb = Inr pred
        \<and> MSELoss_sum pred yb = Inr l
        \<and> s' = after_batch T e t s xb yb pred l)"
  by (auto simp: batch_body_def do_forward_def do_loss_def do_zero_grad_def do_backward_def
      do_step_def after_batch_def batch_calls_def Let_def
      split: option.splits sum.splits prod.splits)

lemma batch_body_eq:
  "batch_body T e t s =
     (case x_perm s of
        None \<Rightarrow> Inl NameError
      | Some xp \<Rightarrow>
          (case select0 xp t of
             Inl er \<Rightarrow> Inl er
           | Inr xb \<Rightarrow>
               (case Linear_forward (mem s) (model s) xb of
                  Inl er \<Rightarrow> Inl er
                | Inr pred \<Rightarrow>
                    (case y_perm s of
                       None \<Rightarrow> Inl NameError
                     | Some yp \<Rightarrow>
                         (case select0 yp t of
                            Inl er \<Rightarrow> Inl er
                          | Inr yb \<Rightarrow>
                              (case MSELoss_sum pred yb of
                                 Inl er \<Rightarrow> Inl er
                               | Inr l \<Rightarrow> Inr (after_batch T e t s xb yb pred l)))))))"
  by (simp add: batch_body_def do_forward_def do_loss_def do_zero_grad_def do_backward_def
      do_step_def after_batch_def batch_calls_def Let_def
      split: option.splits sum.splits prod.splits)

lemma after_batch_fields:
  "n_batches (after_batch T e t s xb yb pred l) = n_batches s"
  "batch_size (after_batch T e t s xb yb pred l) = batch_size s"
  "epoches (after_batch T e t s xb yb pred l) = epoches s"
  "x_var (after_batch T e t s xb yb pred l) = x_var s"
  "y_var (after_batch T e t s xb yb pred l) = y_var s"
  "model (after_batch T e t s xb yb pred l) = model s"
  "history (after_batch T e t s xb yb pred l) = history s"
  "rng (after_batch T e t s xb yb pred l) = rng s"
  "rand_perm (after_batch T e t s xb yb pred l) = rand_perm s"
  "x_perm (after_batch T e t s xb yb pred l) = x_perm s"
  "y_perm (after_batch T e t s xb yb pred l) = y_perm s"
  "calls (after_batch T e t s xb yb pred l) = calls s @ batch_calls e t"
  "loss (after_batch T e t s xb yb pred l) =
     Some \<lparr>gval = l, gleaves = parameters (model s), ginputs = [xb, yb]\<rparr>"
  "opt_params (optimizer (after_batch T e t s xb yb pred l)) = opt_params (optimizer s)"
  "length (mem (after_batch T e t s xb yb pred l)) = length (mem s)"
  by (simp_all add: after_batch_def Let_def step_params step_length backward_length
      zero_grad_length)

lemma after_batch_other:
  assumes "a \<notin> set (opt_params (optimizer s))" "a \<notin> set (parameters (model s))"
  shows "mem (after_batch T e t s xb yb pred l) ! a = mem s ! a"
  using assms
  by (simp add: after_batch_def Let_def step_other backward_other zero_grad_other)

lemma after_batch_shape:
  "shape (data (mem (after_batch T e t s xb yb pred l) ! a)) = shape (data (mem s ! a))"
  "dtype (data (mem (after_batch T e t s xb yb pred l) ! a)) = dtype (data (mem s ! a))"
  "device (data (mem (after_batch T e t s xb yb pred l) ! a)) = device (data (mem s ! a))"
  "requires_grad (mem (after_batch T e t s xb yb pred l) ! a) = requires_grad (mem s ! a)"
  by (simp_all add: after_batch_def Let_def step_shape step_dtype step_device step_requires
      backward_data backward_requires zero_grad_data zero_grad_requires)

lemma after_batch_frame:
  assumes "set (parameters (model s)) \<subseteq> set (opt_params (optimizer s))"
  shows "frame s (after_batch T e t s xb yb pred l)"
  unfolding frame_def
  using assms by (auto simp: after_batch_fields after_batch_shape intro!: after_batch_other)

lemma frame_trainable:
  assumes "frame s s'" "trainable s"
  shows "trainable s'"
proof -
  from assms(2) obtain aw ab where p: "aw \<noteq> ab"
    "model s = \<lparr>reg_parameters = [(''w'', aw), (''b'', ab)], reg_modules = [], plain_attrs = []\<rparr>"
    "opt_params (optimizer s) = [aw, ab]"
    "shape (data (mem s ! aw)) = [1, 1]" "shape (data (mem s ! ab)) = [1]"
    "float_cpu (data (mem s ! aw))" "float_cpu (data (mem s ! ab))"
    "x_var s \<noteq> aw" "x_var s \<noteq> ab" "y_var s \<noteq> aw" "y_var s \<noteq> ab"
    and d: "shape (data (mem s ! x_var s)) = [n_batches s, batch_size s, 1]"
    "shape (data (mem s ! y_var s)) = [n_batches s, batch_size s, 1]"
    "float_cpu (data (mem s ! x_var s))" "float_cpu (data (mem s ! y_var s))"
    "wf_tensor (data (mem s ! x_var s))" "wf_tensor (data (mem s ! y_var s))"
    unfolding trainable_def by blast
  from assms(1) p have same: "mem s' ! x_var s = mem s ! x_var s" "mem s' ! y_var s = mem s ! y_var s"
    by (simp_all add: frame_def)
  from assms(1) have f: "n_batches s' = n_batches s" "batch_size s' = batch_size s"
    "x_var s' = x_var s" "y_var s' = y_var s" "model s' = model s"
    "opt_params (optimizer s') = opt_params (optimizer s)"
    "\<And>a. shape (data (mem s' ! a)) = shape (data (mem s ! a))"
    "\<And>a. float_cpu (data (mem s' ! a)) = float_cpu (data (mem s ! a))"
    by (simp_all add: frame_def float_cpu_def)
  show ?thesis
    unfolding trainable_def f same
    using p d by blast
qed

lemma trainable_params: "trainable s \<Longrightarrow> parameters (model s) = opt_params (optimizer s)"
  by (auto simp: trainable_def parameters_def)

lemma select0_shape:
  "shape t = d # ds \<Longrightarrow> i < d \<Longrightarrow>
     \<exists>b. select0 t i = Inr b \<and> shape b = ds \<and> float_cpu b = float_cpu t"
  by (simp add: select0_def float_cpu_def)

lemma Linear_forward_11:
  assumes "trainable s" "shape xb = [n, 1]" "float_cpu xb"
  shows "\<exists>pred. Linear_forward (mem s) (model s) xb = Inr pred \<and> shape pred = [n, 1]
           \<and> float_cpu pred"
proof -
  from assms(1) obtain aw ab where
    m: "model s = \<lparr>reg_parameters = [(''w'', aw), (''b'', ab)], reg_modules = [], plain_attrs = []\<rparr>"
    and w: "shape (data (mem s ! aw)) = [1, 1]" and b: "shape (data (mem s ! ab)) = [1]"
    and fw: "float_cpu (data (mem s ! aw))" and fb: "float_cpu (data (mem s ! ab))"
    by (auto simp: trainable_def)
  from fw have flo: "is_floating (dtype (data (mem s ! aw)))"
    by (simp add: float_cpu_def is_floating_def)
  from matmul_2d_defined [OF w flo, of xb] assms(2,3) fw
  obtain xw where xw: "matmul xb (data (mem s ! aw)) = Inr xw" by (auto simp: float_cpu_def)
  from matmul_2d_shape [OF w xw] assms(2) have sx: "shape xw = [n, 1]" by simp
  from matmul_kind [OF xw] fw fb have kx: "dtype xw = dtype (data (mem s ! ab))"
    "device xw = device (data (mem s ! ab))"
    by (simp_all add: float_cpu_def)
  have "broadcast_shapes [n, 1] [1] = Inr [n, 1]"
    using broadcast_shapes_last [of "[n]" 1] by simp
  with sx b fb have "\<exists>pred. add xw (data (mem s ! ab)) = Inr pred \<and> shape pred = [n, 1]
      \<and> float_cpu pred"
    by (simp add: add_def pointwise_def result_same [OF kx] float_cpu_def)
  with xw show ?thesis
    by (simp add: m Linear_forward_eq)
qed

lemma MSELoss_sum_same:
  assumes "shape a = shape b" "float_cpu a" "float_cpu b"
  shows "\<exists>v. MSELoss_sum a b = Inr (Tensor Float32 CPU [] [v])"
  using assms
  by (simp add: MSELoss_sum_def pointwise_def broadcast_shapes_same result_same float_cpu_def
      is_floating_def)

lemma batch_body_ok:
  assumes "trainable s" "x_perm s = Some xp" "y_perm s = Some yp"
    "shape xp = [n_batches s, batch_size s, 1]" "shape yp = [n_batches s, batch_size s, 1]"
    "t < n_batches s" "float_cpu xp" "float_cpu yp"
  shows "\<exists>xb yb pred v.
           select0 xp t = Inr xb \<and> select0 yp t = Inr yb
           \<and> Linear_forward (mem s) (model s) xb = Inr pred
           \<and> MSELoss_sum pred yb = Inr (Tensor Float32 CPU [] [v])
           \<and> batch_body T e t s = Inr (after_batch T e t s xb yb pred (Tensor Float32 CPU [] [v]))"
proof -
  from select0_shape [OF assms(4,6)] assms(7) obtain xb where
    xb: "select0 xp t = Inr xb" "shape xb = [batch_size s, 1]" "float_cpu xb" by blast
  from select0_shape [OF assms(5,6)] assms(8) obtain yb where
    yb: "select0 yp t = Inr yb" "shape yb = [batch_size s, 1]" "float_cpu yb" by blast
  from Linear_forward_11 [OF assms(1) xb(2,3)] obtain pred where
    pred: "Linear_forward (mem s) (model s) xb = Inr pred" "shape pred = [batch_size s, 1]"
      "float_cpu pred"
    by blast
  from MSELoss_sum_same [of pred yb] pred(2,3) yb(2,3) obtain v where
    v: "MSELoss_sum pred yb = Inr (Tensor Float32 CPU [] [v])" by auto
  have "batch_body T e t s = Inr (after_batch T e t s xb yb pred (Tensor Float32 CPU [] [v]))"
    unfolding batch_body_Inr using assms(2,3) xb(1) yb(1) pred(1) v by blast
  with xb(1) yb(1) pred(1) v show ?thesis by blast
qed

lemma batches_ok:
  assumes "trainable s" "x_perm s = Some xp" "y_perm s = Some yp"
    "shape xp = [n_batches s, batch_size s, 1]" "shape yp = [n_batches s, batch_size s, 1]"
    "float_cpu xp" "float_cpu yp" "k \<le> n_batches s"
  shows "\<exists>s'. for_each (batch_body T e) [0..<k] s = Inr s' \<and> frame s s'
           \<and> history s' = history s \<and> rng s' = rng s \<and> rand_perm s' = rand_perm s
           \<and> x_perm s' = x_perm s \<and> y_perm s' = y_perm s
           \<and> calls s' = calls s @ concat (map (batch_calls e) [0..<k])
           \<and> (k = 0 \<and> loss s' = loss s \<or> (\<exists>l v. loss s' = Some l \<and> gval l = Tensor Float32 CPU [] [v]))"
  using assms(8)
proof (induction k)
  case 0
  show ?case by (simp add: frame_refl)
next
  case (Suc k)
  then obtain s1 where s1: "for_each (batch_body T e) [0..<k] s = Inr s1" "frame s s1"
    "history s1 = history s" "rng s1 = rng s" "rand_perm s1 = rand_perm s"
    "x_perm s1 = x_perm s" "y_perm s1 = y_perm s"
    "calls s1 = calls s @ concat (map (batch_calls e) [0..<k])"
    by auto
  have t1: "trainable s1" using frame_trainable [OF s1(2) assms(1)] .
  have n1: "n_batches s1 = n_batches s" "batch_size s1 = batch_size s"
    using s1(2) by (simp_all add: frame_def)
  from batch_body_ok [of s1 xp yp k T e] t1 s1(6,7) assms(2,3,4,5,6,7) n1 Suc.prems
  obtain xb yb pred v where
    b: "batch_body T e k s1 = Inr (after_batch T e k s1 xb yb pred (Tensor Float32 CPU [] [v]))"
    by auto
  let ?s2 = "after_batch T e k s1 xb yb pred (Tensor Float32 CPU [] [v])"
  have f2: "frame s1 ?s2"
    by (rule after_batch_frame) (simp add: trainable_params [OF t1])
  have "for_each (batch_body T e) [0..<Suc k] s = Inr ?s2"
    by (simp add: for_each_snoc s1(1) b)
  moreover have "frame s ?s2" using frame_trans [OF s1(2) f2] .
  ultimately show ?case
    by (auto simp: after_batch_fields s1)
qed

lemma randperm_ok_props:
  assumes "randperm_ok T" "randperm_sample T n g = (p, g')"
  shows "mset p = mset [0..<n]" "length p = n" "list_all (\<lambda>i. i < n) p"
    "\<And>i. i < n \<Longrightarrow> p ! i < n"
proof -
  from assms(1) have "mset (fst (randperm_sample T n g)) = mset [0..<n]"
    unfolding randperm_ok_def by blast
  with assms(2) show m: "mset p = mset [0..<n]" by simp
  from m have "size (mset p) = size (mset [0..<n])" by simp
  then show l: "length p = n" by simp
  from m have "set_mset (mset p) = set_mset (mset [0..<n])" by simp
  then have s: "set p = {0..<n}" by simp
  then show "list_all (\<lambda>i. i < n) p" by (simp add: list_all_iff)
  show "p ! i < n" if "i < n" for i
    using s l that nth_mem [of i p] by auto
qed

lemma index0_shape:
  assumes "shape t = d # ds" "list_all (\<lambda>i. i < d) p"
  shows "index0 t p = Inr (Tensor (dtype t) (device t) (length p # ds) (concat (map (slice t) p)))"
  using assms by (simp add: index0_def)

lemma concat_block:
  assumes "\<forall>b \<in> set bs. length b = m" "i < length bs"
  shows "take m (drop (i * m) (concat bs)) = bs ! i"
  using assms
proof (induction bs arbitrary: i)
  case Nil
  then show ?case by simp
next
  case (Cons b bs)
  show ?case
  proof (cases i)
    case 0
    with Cons.prems show ?thesis by simp
  next
    case (Suc j)
    with Cons.prems have "take m (drop (j * m) (concat bs)) = bs ! j"
      by (intro Cons.IH) auto
    with Cons.prems Suc show ?thesis by (simp add: add.commute)
  qed
qed

lemma slice_length:
  assumes "wf_tensor t" "shape t = d # ds" "j < d"
  shows "length (slice t j) = numel ds"
proof -
  from assms(1,2) have "length (elems t) = d * numel ds"
    by (simp add: wf_tensor_def numel_def)
  moreover from assms(3) have "numel ds + j * numel ds \<le> d * numel ds"
    by (metis Suc_leI mult_Suc mult_le_mono1)
  ultimately show ?thesis
    using assms(2) by (simp add: slice_def)
qed

lemma select0_index0:
  assumes "wf_tensor t" "shape t = d # ds" "list_all (\<lambda>i. i < d) p" "i < length p"
    "index0 t p = Inr tp"
  shows "select0 tp i = select0 t (p ! i)"
proof -
  from assms(3,4) have pi: "p ! i < d" by (simp add: list_all_length)
  from index0_shape [OF assms(2,3)] assms(5)
  have tp: "tp = Tensor (dtype t) (device t) (length p # ds) (concat (map (slice t) p))" by simp
  have "\<forall>b \<in> set (map (slice t) p). length b = numel ds"
    using assms(1,2,3) by (auto simp: list_all_iff slice_length)
  from concat_block [OF this, of i] assms(4)
  have "take (numel ds) (drop (i * numel ds) (concat (map (slice t) p))) = slice t (p ! i)"
    by simp
  then have "slice tp i = slice t (p ! i)"
    by (simp add: tp slice_def)
  with pi assms(2,4) show ?thesis
    by (simp add: select0_def tp)
qed

lemma shuffle_ok:
  assumes "randperm_ok T" "trainable s"
  shows "\<exists>p g xp yp.
           randperm_sample T (n_batches s) (rng s) = (p, g)
           \<and> mset p = mset [0..<n_batches s]
           \<and> index0 (data (mem s ! x_var s)) p = Inr xp
           \<and> index0 (data (mem s ! y_var s)) p = Inr yp
           \<and> shape xp = [n_batches s, batch_size s, 1]
           \<and> shape yp = [n_batches s, batch_size s, 1]
           \<and> float_cpu xp \<and> float_cpu yp
           \<and> (\<forall>t < n_batches s. p ! t < n_batches s
                 \<and> select0 xp t = select0 (data (mem s ! x_var s)) (p ! t)
                 \<and> select0 yp t = select0 (data (mem s ! y_var s)) (p ! t))
           \<and> shuffle T s = Inr (s\<lparr>rng := g, rand_perm := Some p, x_perm := Some xp,
                                   y_perm := Some yp\<rparr>)"
proof -
  obtain p g where pg: "randperm_sample T (n_batches s) (rng s) = (p, g)"
    by (cases "randperm_sample T (n_batches s) (rng s)")
  note rp = randperm_ok_props [OF assms(1) pg]
  from assms(2) have sx: "shape (data (mem s ! x_var s)) = [n_batches s, batch_size s, 1]"
    and sy: "shape (data (mem s ! y_var s)) = [n_batches s, batch_size s, 1]"
    and wx: "wf_tensor (data (mem s ! x_var s))" and wy: "wf_tensor (data (mem s ! y_var s))"
    and fx: "float_cpu (data (mem s ! x_var s))" and fy: "float_cpu (data (mem s ! y_var s))"
    by (simp_all add: trainable_def)
  let ?xp = "Tensor (dtype (data (mem s ! x_var s))) (device (data (mem s ! x_var s)))
               (length p # [batch_size s, 1]) (concat (map (slice (data (mem s ! x_var s))) p))"
  let ?yp = "Tensor (dtype (data (mem s ! y_var s))) (device (data (mem s ! y_var s)))
               (length p # [batch_size s, 1]) (concat (map (slice (data (mem s ! y_var s))) p))"
  have fp: "float_cpu ?xp" "float_cpu ?yp"
    using fx fy by (simp_all add: float_cpu_def)
  have ix: "index0 (data (mem s ! x_var s)) p = Inr ?xp"
    using index0_shape [OF sx rp(3)] .
  have iy: "index0 (data (mem s ! y_var s)) p = Inr ?yp"
    using index0_shape [OF sy rp(3)] .
  have pair: "p ! t < n_batches s
      \<and> select0 ?xp t = select0 (data (mem s ! x_var s)) (p ! t)
      \<and> select0 ?yp t = select0 (data (mem s ! y_var s)) (p ! t)" if "t < n_batches s" for t
    using select0_index0 [OF wx sx rp(3) _ ix, of t] select0_index0 [OF wy sy rp(3) _ iy, of t]
      rp(2) rp(4) [OF that] that by simp
  have "shuffle T s = Inr (s\<lparr>rng := g, rand_perm := Some p, x_perm := Some ?xp, y_perm := Some ?yp\<rparr>)"
    by (simp add: shuffle_def pg ix iy)
  with pg rp(1) ix iy pair rp(2) fp show ?thesis
    by (intro exI [of _ p] exI [of _ g] exI [of _ ?xp] exI [of _ ?yp]) simp
qed

lemma batches_keep:
  "for_each (batch_body T e) ts s = Inr s' \<Longrightarrow>
     history s' = history s \<and> rng s' = rng s \<and> rand_perm s' = rand_perm s
     \<and> x_perm s' = x_perm s \<and> y_perm s' = y_perm s \<and> n_batches s' = n_batches s"
proof (induction ts arbitrary: s)
  case Nil
  then show ?case by simp
next
  case (Cons t ts)
  then obtain s1 where s1: "batch_body T e t s = Inr s1" "for_each (batch_body T e) ts s1 = Inr s'"
    by (auto split: sum.splits)
  from s1(1) have "history s1 = history s \<and> rng s1 = rng s \<and> rand_perm s1 = rand_perm s
     \<and> x_perm s1 = x_perm s \<and> y_perm s1 = y_perm s \<and> n_batches s1 = n_batches s"
    unfolding batch_body_Inr by (auto simp: after_batch_fields)
  with Cons.IH [OF s1(2)] show ?case by simp
qed

lemma forward_loss_item:
  assumes "x_perm s = Some xp" "y_perm s = Some yp" "select0 xp t = Inr xb"
    "select0 yp t = Inr yb" "Linear_forward (mem s) (model s) xb = Inr pred"
    "MSELoss_sum pred yb = Inr l"
  shows "\<exists>sd se l'. do_forward e t s = Inr sd \<and> do_loss e t sd = Inr se
           \<and> loss se = Some l' \<and> gval l' = l"
  using assms by (simp add: do_forward_def do_loss_def)

lemma epoch_ok:
  assumes "randperm_ok T" "trainable s" "0 < n_batches s"
  shows "\<exists>s2 v. epoch_body T e s = Inr (s2\<lparr>history := history s @ [v]\<rparr>)
           \<and> last_batch_loss T e s = Inr v
           \<and> frame s s2 \<and> history s2 = history s
           \<and> calls s2 = calls s @ concat (map (batch_calls e) [0..<n_batches s])"
proof -
  from shuffle_ok [OF assms(1,2)] obtain p g xp yp where
    sh: "shape xp = [n_batches s, batch_size s, 1]" "shape yp = [n_batches s, batch_size s, 1]"
      "shuffle T s = Inr (s\<lparr>rng := g, rand_perm := Some p, x_perm := Some xp, y_perm := Some yp\<rparr>)"
      "float_cpu xp" "float_cpu yp"
    by blast
  let ?sb = "s\<lparr>rng := g, rand_perm := Some p, x_perm := Some xp, y_perm := Some yp\<rparr>"
  have fb: "frame s ?sb" by (simp add: frame_def)
  have tb: "trainable ?sb" using frame_trainable [OF fb assms(2)] .
  have xb: "x_perm ?sb = Some xp" "y_perm ?sb = Some yp"
    "shape xp = [n_batches ?sb, batch_size ?sb, 1]" "shape yp = [n_batches ?sb, batch_size ?sb, 1]"
    "n_batches ?sb = n_batches s"
    using sh by simp_all
  let ?n = "n_batches s"
  from batches_ok [OF tb xb(1,2,3,4) sh(4,5), of "?n - 1" T e]
  obtain sc where sc: "for_each (batch_body T e) [0..<?n - 1] ?sb = Inr sc" "frame ?sb sc"
    "history sc = history ?sb" "x_perm sc = x_perm ?sb" "y_perm sc = y_perm ?sb"
    "calls sc = calls ?sb @ concat (map (batch_calls e) [0..<?n - 1])"
    by auto
  have tc: "trainable sc" using frame_trainable [OF sc(2) tb] .
  have nc: "n_batches sc = ?n" "batch_size sc = batch_size s"
    using sc(2) by (simp_all add: frame_def)
  from batch_body_ok [of sc xp yp "?n - 1" T e] tc sc(4,5) sh(1,2,4,5) nc assms(3)
  obtain xb yb pred v where
    lb: "select0 xp (?n - 1) = Inr xb" "select0 yp (?n - 1) = Inr yb"
      "Linear_forward (mem sc) (model sc) xb = Inr pred"
      "MSELoss_sum pred yb = Inr (Tensor Float32 CPU [] [v])"
      "batch_body T e (?n - 1) sc = Inr (after_batch T e (?n - 1) sc xb yb pred (Tensor Float32 CPU [] [v]))"
    by auto
  let ?s2 = "after_batch T e (?n - 1) sc xb yb pred (Tensor Float32 CPU [] [v])"
  from assms(3) have upt: "[0..<?n] = [0..<?n - 1] @ [?n - 1]"
    by (metis Suc_pred' upt_Suc_append zero_le)
  have loop: "for_each (batch_body T e) [0..<?n] ?sb = Inr ?s2"
    using sc(1) lb(5) by (subst upt) (simp add: for_each_snoc)
  have ap: "append_loss ?s2 = Inr (?s2\<lparr>history := history s @ [v]\<rparr>)"
    using sc(3) by (simp add: append_loss_def after_batch_fields item_def)
  have ep: "epoch_body T e s = Inr (?s2\<lparr>history := history s @ [v]\<rparr>)"
    using loop ap by (simp add: epoch_body_def sh(3))
  from forward_loss_item [of sc xp yp "?n - 1" xb yb pred "Tensor Float32 CPU [] [v]" e] sc(4,5) lb
  obtain sd se l' where fl: "do_forward e (?n - 1) sc = Inr sd" "do_loss e (?n - 1) sd = Inr se"
    "loss se = Some l'" "gval l' = Tensor Float32 CPU [] [v]"
    by auto
  have lbl: "last_batch_loss T e s = Inr v"
    using sc(1) fl by (simp add: last_batch_loss_def sh(3) item_def)
  have f2: "frame sc ?s2"
    by (rule after_batch_frame) (simp add: trainable_params [OF tc])
  have fr: "frame s ?s2"
    using frame_trans [OF fb frame_trans [OF sc(2) f2]] .
  have "calls ?s2 = calls s @ concat (map (batch_calls e) [0..<?n])"
    using sc(6) by (subst upt) (simp add: after_batch_fields)
  with ep lbl fr sc(3) show ?thesis
    by (intro exI [of _ ?s2] exI [of _ v]) (simp add: after_batch_fields)
qed

lemma frame_history: "frame s s' \<Longrightarrow> frame s (s'\<lparr>history := hs\<rparr>)"
  by (simp add: frame_def)

lemma epochs_ok:
  assumes "randperm_ok T" "trainable s" "0 < n_batches s"
  shows "\<exists>s'. for_each (epoch_body T) [0..<k] s = Inr s' \<and> frame s s'
           \<and> length (history s') = length (history s) + k
           \<and> take (length (history s)) (history s') = history s
           \<and> calls s' = calls s @ concat (map (epoch_calls (n_batches s)) [0..<k])
           \<and> (\<forall>e<k. \<exists>sa. for_each (epoch_body T) [0..<e] s = Inr sa \<and> frame s sa
                  \<and> last_batch_loss T e sa = Inr (history s' ! (length (history s) + e)))"
proof (induction k)
  case 0
  show ?case by (simp add: frame_refl)
next
  case (Suc k)
  then obtain s1 where s1: "for_each (epoch_body T) [0..<k] s = Inr s1" "frame s s1"
    "length (history s1) = length (history s) + k"
    "take (length (history s)) (history s1) = history s"
    "calls s1 = calls s @ concat (map (epoch_calls (n_batches s)) [0..<k])"
    and old: "\<And>e. e < k \<Longrightarrow> \<exists>sa. for_each (epoch_body T) [0..<e] s = Inr sa \<and> frame s sa
                  \<and> last_batch_loss T e sa = Inr (history s1 ! (length (history s) + e))"
    by blast
  have t1: "trainable s1" using frame_trainable [OF s1(2) assms(2)] .
  have n1: "n_batches s1 = n_batches s" using s1(2) by (simp add: frame_def)
  from epoch_ok [OF assms(1) t1, of k] assms(3) n1
  obtain s2 v where s2: "epoch_body T k s1 = Inr (s2\<lparr>history := history s1 @ [v]\<rparr>)"
    "last_batch_loss T k s1 = Inr v" "frame s1 s2"
    "calls s2 = calls s1 @ concat (map (batch_calls k) [0..<n_batches s])"
    by auto
  let ?s' = "s2\<lparr>history := history s1 @ [v]\<rparr>"
  have run: "for_each (epoch_body T) [0..<Suc k] s = Inr ?s'"
    by (simp add: for_each_snoc s1(1) s2(1))
  have fr: "frame s ?s'"
    using frame_history [OF frame_trans [OF s1(2) s2(3)]] .
  have len: "length (history ?s') = length (history s) + Suc k"
    by (simp add: s1(3))
  have tk: "take (length (history s)) (history ?s') = history s"
    using s1(3,4) by simp
  have cl: "calls ?s' = calls s @ concat (map (epoch_calls (n_batches s)) [0..<Suc k])"
    by (simp add: s2(4) s1(5) epoch_calls_def)
  have ent: "\<exists>sa. for_each (epoch_body T) [0..<e] s = Inr sa \<and> frame s sa
       \<and> last_batch_loss T e sa = Inr (history ?s' ! (length (history s) + e))"
    if "e < Suc k" for e
  proof (cases "e < k")
    case True
    with old [OF True] s1(3) show ?thesis by (simp add: nth_append)
  next
    case False
    with that have "e = k" by simp
    with s1(1,2,3) s2(2) show ?thesis by (simp add: nth_append)
  qed
  from run fr len tk cl ent show ?case by blast
qed

lemma map_tensor_shape: "shape (map_tensor f t) = shape t"
  by (simp add: map_tensor_def)

lemma map_tensor_wf: "wf_tensor t \<Longrightarrow> wf_tensor (map_tensor f t)"
  by (simp add: map_tensor_def wf_tensor_def)

lemma map_tensor_float: "float_cpu (map_tensor f t) = float_cpu t"
  by (simp add: map_tensor_def float_cpu_def)

lemma add_same_shape:
  assumes "shape a = shape b" "float_cpu a" "float_cpu b"
  shows "\<exists>c. add a b = Inr c \<and> shape c = shape a \<and> wf_tensor c \<and> float_cpu c"
  using assms
  by (simp add: add_def pointwise_def broadcast_shapes_same wf_tensor_def indices_length
      result_same float_cpu_def)

lemma data_cell_ok:
  "\<exists>E. data_cell T nbat bsz eps h g = Inr E
      \<and> e_n_batches E = nbat \<and> e_batch_size E = bsz \<and> e_epoches E = eps
      \<and> e_x E = length h \<and> e_y E = Suc (length h)
      \<and> length (e_mem E) = length h + 2 \<and> take (length h) (e_mem E) = h
      \<and> shape (data (e_mem E ! e_x E)) = [nbat, bsz, 1] \<and> wf_tensor (data (e_mem E ! e_x E))
      \<and> shape (data (e_mem E ! e_y E)) = [nbat, bsz, 1] \<and> wf_tensor (data (e_mem E ! e_y E))
      \<and> float_cpu (data (e_mem E ! e_x E)) \<and> float_cpu (data (e_mem E ! e_y E))"
proof -
  obtain r g1 where r: "rand_tensor (uniform_sample T) [nbat, bsz, 1] g = (r, g1)"
    by (cases "rand_tensor (uniform_sample T) [nbat, bsz, 1] g")
  from rand_tensor_shape [of "uniform_sample T" "[nbat, bsz, 1]" g]
    rand_tensor_wf [of "uniform_sample T" "[nbat, bsz, 1]" g]
    rand_tensor_float [of "uniform_sample T" "[nbat, bsz, 1]" g] r
  have rs: "shape r = [nbat, bsz, 1]" "wf_tensor r" "float_cpu r" by simp_all
  let ?x = "map_tensor (\<lambda>v. v * 100) r"
  let ?y0 = "map_tensor (\<lambda>v. v + 5) (map_tensor (\<lambda>v. 3 * v) ?x)"
  obtain noise g2 where n: "rand_tensor (uniform_sample T) (shape ?y0) g1 = (noise, g2)"
    by (cases "rand_tensor (uniform_sample T) (shape ?y0) g1")
  from rand_tensor_shape [of "uniform_sample T" "shape ?y0" g1]
    rand_tensor_float [of "uniform_sample T" "shape ?y0" g1] n
  have ns: "shape noise = shape ?y0" "float_cpu noise" by simp_all
  from add_same_shape [of ?y0 noise] ns rs(3) obtain y1 where
    y1: "add ?y0 noise = Inr y1" "shape y1 = shape ?y0" "wf_tensor y1" "float_cpu y1"
    by (auto simp: map_tensor_float)
  let ?E = "\<lparr>e_mem = h @ [\<lparr>data = ?x, grad = None, requires_grad = False\<rparr>,
                          \<lparr>data = y1, grad = None, requires_grad = False\<rparr>],
             e_rng = g2, e_n_batches = nbat, e_batch_size = bsz,
             e_epoches = eps, e_x = length h, e_y = Suc (length h)\<rparr>"
  have "data_cell T nbat bsz eps h g = Inr ?E"
    using r n y1(1) by (simp add: data_cell_def alloc_def Let_def)
  moreover have "shape (data (e_mem ?E ! e_x ?E)) = [nbat, bsz, 1]"
    "wf_tensor (data (e_mem ?E ! e_x ?E))"
    "shape (data (e_mem ?E ! e_y ?E)) = [nbat, bsz, 1]"
    "wf_tensor (data (e_mem ?E ! e_y ?E))"
    "float_cpu (data (e_mem ?E ! e_x ?E))" "float_cpu (data (e_mem ?E ! e_y ?E))"
    using rs y1(2,3,4) by (simp_all add: map_tensor_shape map_tensor_wf map_tensor_float nth_append)
  ultimately show ?thesis
    by (intro exI [of _ ?E]) simp
qed

lemma prepare_eq:
  "prepare T E =
     Inr \<lparr>mem = e_mem E @
            [\<lparr>data = fst (rand_tensor (normal_sample T) [1, 1] (e_rng E)), grad = None,
               requires_grad = True\<rparr>,
             \<lparr>data = zeros [1], grad = None, requires_grad = True\<rparr>],
          rng = snd (rand_tensor (normal_sample T) [1, 1] (e_rng E)),
          n_batches = e_n_batches E, batch_size = e_batch_size E,
          epoches = e_epoches E, x_var = e_x E, y_var = e_y E,
          model = \<lparr>reg_parameters = [(''w'', length (e_mem E)), (''b'', Suc (length (e_mem E)))],
                    reg_modules = [], plain_attrs = []\<rparr>,
          optimizer = \<lparr>opt_params = [length (e_mem E), Suc (length (e_mem E))],
                        opt_state = adam_init T\<rparr>,
          history = [], rand_perm = None, x_perm = None, y_perm = None,
          y_pred = None, loss = None, calls = []\<rparr>"
  by (simp add: prepare_def Linear_init_eq Linear_parameters Adam_init_def)

lemma prepare_trainable:
  assumes "data_cell T nbat bsz eps h g = Inr E"
  shows "\<exists>s. prepare T E = Inr s \<and> trainable s \<and> n_batches s = nbat \<and> batch_size s = bsz
           \<and> epoches s = eps \<and> history s = [] \<and> calls s = []
           \<and> x_var s = e_x E \<and> y_var s = e_y E
           \<and> mem s ! x_var s = e_mem E ! e_x E \<and> mem s ! y_var s = e_mem E ! e_y E
           \<and> x_var s \<noteq> y_var s
           \<and> x_var s < length (e_mem E) \<and> y_var s < length (e_mem E)
           \<and> opt_params (optimizer s) = parameters (model s)
           \<and> parameters (model s) = [length (e_mem E), Suc (length (e_mem E))]"
proof -
  from data_cell_ok [of T nbat bsz eps h g] assms
  have E: "e_n_batches E = nbat" "e_batch_size E = bsz" "e_epoches E = eps"
    "e_x E = length h" "e_y E = Suc (length h)" "length (e_mem E) = length h + 2"
    "shape (data (e_mem E ! e_x E)) = [nbat, bsz, 1]" "wf_tensor (data (e_mem E ! e_x E))"
    "shape (data (e_mem E ! e_y E)) = [nbat, bsz, 1]" "wf_tensor (data (e_mem E ! e_y E))"
    "float_cpu (data (e_mem E ! e_x E))" "float_cpu (data (e_mem E ! e_y E))"
    by auto
  have z: "shape (zeros [n]) = [n]" for n by (simp add: zeros_def)
  from E show ?thesis
    unfolding prepare_eq
    by (simp add: trainable_def nth_append rand_tensor_shape rand_tensor_float zeros_float z
        Linear_parameters)
qed

lemma training_cell_eq:
  "prepare T E = Inr s0 \<Longrightarrow> training_cell T E = for_each (epoch_body T) [0..<epoches s0] s0"
  by (simp add: training_cell_def train_def)

lemma shuffle_frame: "shuffle T s = Inr s' \<Longrightarrow> frame s s'"
  by (auto simp: shuffle_def frame_def split: prod.splits sum.splits)

lemma append_loss_frame: "append_loss s = Inr s' \<Longrightarrow> frame s s'"
  by (auto simp: append_loss_def frame_def split: option.splits sum.splits)

lemma frame_subset:
  "frame s s' \<Longrightarrow> set (parameters (model s)) \<subseteq> set (opt_params (optimizer s)) \<Longrightarrow>
     set (parameters (model s')) \<subseteq> set (opt_params (optimizer s'))"
  by (simp add: frame_def)

lemma batches_frame:
  assumes "for_each (batch_body T e) ts s = Inr s'"
    "set (parameters (model s)) \<subseteq> set (opt_params (optimizer s))"
  shows "frame s s'"
  using assms
proof (induction ts arbitrary: s)
  case Nil
  then show ?case by (simp add: frame_refl)
next
  case (Cons t ts)
  then obtain s1 where s1: "batch_body T e t s = Inr s1" "for_each (batch_body T e) ts s1 = Inr s'"
    by (auto split: sum.splits)
  from s1(1) Cons.prems(2) have f1: "frame s s1"
    unfolding batch_body_Inr by (auto intro: after_batch_frame)
  from Cons.IH [OF s1(2) frame_subset [OF f1 Cons.prems(2)]] f1 show ?case
    by (rule frame_trans [rotated])
qed

lemma epoch_frame:
  assumes "epoch_body T e s = Inr s'"
    "set (parameters (model s)) \<subseteq> set (opt_params (optimizer s))"
  shows "frame s s'"
proof -
  from assms(1) obtain s1 s2 where r: "shuffle T s = Inr s1"
    "for_each (batch_body T e) [0..<n_batches s1] s1 = Inr s2" "append_loss s2 = Inr s'"
    by (auto simp: epoch_body_def split: sum.splits)
  have f1: "frame s s1" using shuffle_frame [OF r(1)] .
  have f2: "frame s1 s2" using batches_frame [OF r(2) frame_subset [OF f1 assms(2)]] .
  have f3: "frame s2 s'" using append_loss_frame [OF r(3)] .
  show ?thesis using frame_trans [OF f1 frame_trans [OF f2 f3]] .
qed

lemma epochs_frame:
  assumes "for_each (epoch_body T) es s = Inr s'"
    "set (parameters (model s)) \<subseteq> set (opt_params (optimizer s))"
  shows "frame s s'"
  using assms
proof (induction es arbitrary: s)
  case Nil
  then show ?case by (simp add: frame_refl)
next
  case (Cons e es)
  then obtain s1 where s1: "epoch_body T e s = Inr s1" "for_each (epoch_body T) es s1 = Inr s'"
    by (auto split: sum.splits)
  have f1: "frame s s1" using epoch_frame [OF s1(1) Cons.prems(2)] .
  from Cons.IH [OF s1(2) frame_subset [OF f1 Cons.prems(2)]] f1 show ?case
    by (rule frame_trans [rotated])
qed

lemma step_two:
  assumes "opt_params opt = [aw, ab]" "aw \<noteq> ab" "aw < length hh" "ab < length hh"
    "adam_update T (opt_state opt)
       [(data (hh ! aw), grad (hh ! aw)), (data (hh ! ab), grad (hh ! ab))] = (st, [vw, vb])"
  shows "step T opt hh =
           (opt\<lparr>opt_state := st\<rparr>,
            hh[aw := (hh ! aw)\<lparr>data := Tensor (dtype (data (hh ! aw))) (device (data (hh ! aw)))
                                          (shape (data (hh ! aw))) vw\<rparr>,
               ab := (hh ! ab)\<lparr>data := Tensor (dtype (data (hh ! ab))) (device (data (hh ! ab)))
                                          (shape (data (hh ! ab))) vb\<rparr>])"
  using assms by (simp add: step_def modify_def)


lemma example_randperm_ok: "randperm_ok example_torch"
  by (simp add: randperm_ok_def example_torch_def)

lemma training_cell_ok:
  assumes "randperm_ok T" "0 < nbat" "data_cell T nbat bsz eps h g = Inr E"
  shows "\<exists>s. training_cell T E = Inr s"
proof -
  from prepare_trainable [OF assms(3)] obtain s0 where
    s0: "prepare T E = Inr s0" "trainable s0" "n_batches s0 = nbat" by blast
  from epochs_ok [OF assms(1) s0(2), of "epoches s0"] assms(2) s0(3)
  show ?thesis by (auto simp: training_cell_eq [OF s0(1)])
qed

lemma example_data:
  "data_cell example_torch 1 1 1 [] 0 =
     Inr \<lparr>e_mem = [\<lparr>data = Tensor Float32 CPU [1, 1, 1] [0], grad = None, requires_grad = False\<rparr>,
                   \<lparr>data = Tensor Float32 CPU [1, 1, 1] [11 / 2], grad = None, requires_grad = False\<rparr>],
          e_rng = 2, e_n_batches = 1, e_batch_size = 1, e_epoches = 1, e_x = 0, e_y = 1\<rparr>"
  by (simp add: data_cell_def rand_tensor_def numel_def example_torch_def alloc_def
      map_tensor_def add_def pointwise_def broadcast_shapes_def read_at_def bindex_def offset_def
      result_type_def result_device_def promote_types_def Let_def)

lemmas run_defs =
  training_cell_def prepare_eq train_def epoch_body_def shuffle_def index0_def slice_def
  numel_def batch_body_def do_forward_def do_loss_def do_zero_grad_def do_backward_def
  do_step_def select0_def Linear_forward_eq matmul_def MSELoss_sum_def add_def pointwise_def
  broadcast_shapes_def read_at_def bindex_def offset_def zero_grad_def modify_def backward_def
  accumulate_def step_def append_loss_def item_def example_torch_def rand_tensor_def zeros_def
  parameters_def map_tensor_def result_type_def result_device_def promote_types_def
  is_floating_def Let_def

lemma example_trained:
  "map_sum id (\<lambda>s. (data (mem s ! 2), data (mem s ! 3)))
     (training_cell example_torch
        \<lparr>e_mem = [\<lparr>data = Tensor Float32 CPU [1, 1, 1] [0], grad = None, requires_grad = False\<rparr>,
                   \<lparr>data = Tensor Float32 CPU [1, 1, 1] [11 / 2], grad = None, requires_grad = False\<rparr>],
          e_rng = 2, e_n_batches = 1, e_batch_size = 1, e_epoches = 1, e_x = 0, e_y = 1\<rparr>)
   = Inr (Tensor Float32 CPU [1, 1] [99 / 100], Tensor Float32 CPU [1] [- (1 / 100)])"
  by (simp add: run_defs power2_eq_square)

lemma upt_2: "[0..<2] = [0, 1]"
  by (simp add: numeral_2_eq_2)

lemma draw_2:
  "draw sample 2 g =
     (case sample g of (v, g') \<Rightarrow> (case sample g' of (v', g'') \<Rightarrow> ([v, v'], g'')))"
  by (simp add: numeral_2_eq_2 split: prod.splits)

lemma example_data2:
  "data_cell example_torch 2 1 2 [] 0 =
     Inr \<lparr>e_mem = [\<lparr>data = Tensor Float32 CPU [2, 1, 1] [0, 50], grad = None, requires_grad = False\<rparr>,
                   \<lparr>data = Tensor Float32 CPU [2, 1, 1] [5, 311 / 2], grad = None, requires_grad = False\<rparr>],
          e_rng = 4, e_n_batches = 2, e_batch_size = 1, e_epoches = 2, e_x = 0, e_y = 1\<rparr>"
  by (simp add: data_cell_def rand_tensor_def numel_def example_torch_def alloc_def
      map_tensor_def add_def pointwise_def broadcast_shapes_def read_at_def bindex_def offset_def
      result_type_def result_device_def promote_types_def Let_def draw_2 upt_2)


section \<open>The loops and the described training\<close>

lemma select0_batch_of:
  "shape t = d # ds \<Longrightarrow> i < d \<Longrightarrow> select0 t i = Inr (batch_of t i)"
  by (simp add: select0_def batch_of_def)

lemma for_each_split:
  assumes "i < n" "for_each body [0..<n] s = Inr s'"
  shows "\<exists>s1 s2. for_each body [0..<i] s = Inr s1 \<and> body i s1 = Inr s2
           \<and> for_each body [Suc i..<n] s2 = Inr s'"
proof -
  from assms(1) have "[0..<n] = [0..<i] @ [i..<n]"
    using upt_add_eq_append [of 0 i "n - i"] by simp
  moreover from assms(1) have "[i..<n] = i # [Suc i..<n]"
    by (rule upt_conv_Cons)
  ultimately have "[0..<n] = [0..<i] @ i # [Suc i..<n]" by simp
  with assms(2) have "for_each body ([0..<i] @ i # [Suc i..<n]) s = Inr s'" by simp
  then show ?thesis
    by (auto simp: for_each_append split: sum.splits)
qed

lemma batch_body_spec:
  assumes "batch_body T e t s = Inr s'" "x_perm s = Some xp" "y_perm s = Some yp"
    "select0 xp t = Inr xb" "select0 yp t = Inr yb"
  shows "\<exists>pred l. Linear_forward (mem s) (model s) xb = Inr pred \<and> MSELoss_sum pred yb = Inr l
           \<and> s' = after_batch T e t s xb yb pred l
           \<and> spec_batch T (model s) xb yb (optimizer s, mem s) = Inr ((optimizer s', mem s'), l)"
proof -
  from assms obtain pred l where r: "Linear_forward (mem s) (model s) xb = Inr pred"
    "MSELoss_sum pred yb = Inr l" "s' = after_batch T e t s xb yb pred l"
    unfolding batch_body_Inr by auto
  have "spec_batch T (model s) xb yb (optimizer s, mem s) = Inr ((optimizer s', mem s'), l)"
    by (simp add: spec_batch_def r after_batch_def Let_def)
  with r show ?thesis by blast
qed

lemma spec_batches_last:
  "bs \<noteq> [] \<Longrightarrow> spec_batches T m bs (os, r1) = spec_batches T m bs (os, r2)"
  by (cases bs) simp_all

lemma batches_spec:
  assumes "for_each (batch_body T e) ts s = Inr s'" "x_perm s = Some xp" "y_perm s = Some yp"
    "\<forall>t\<in>set ts. select0 xp t = Inr (fx t) \<and> select0 yp t = Inr (fy t)"
  shows "spec_batches T (model s) (map (\<lambda>t. (fx t, fy t)) ts)
             ((optimizer s, mem s), map_option gval (loss s))
           = Inr ((optimizer s', mem s'), map_option gval (loss s'))"
  using assms
proof (induction ts arbitrary: s)
  case Nil
  then show ?case by simp
next
  case (Cons t ts)
  then obtain s1 where s1: "batch_body T e t s = Inr s1" "for_each (batch_body T e) ts s1 = Inr s'"
    by (auto split: sum.splits)
  from Cons.prems(4) have sel: "select0 xp t = Inr (fx t)" "select0 yp t = Inr (fy t)"
    and rest: "\<forall>t\<in>set ts. select0 xp t = Inr (fx t) \<and> select0 yp t = Inr (fy t)"
    by simp_all
  from batch_body_spec [OF s1(1) Cons.prems(2,3) sel] obtain pred l where
    r: "s1 = after_batch T e t s (fx t) (fy t) pred l"
      "spec_batch T (model s) (fx t) (fy t) (optimizer s, mem s) = Inr ((optimizer s1, mem s1), l)"
    by blast
  from r(1) Cons.prems(2,3) have k: "model s1 = model s" "x_perm s1 = Some xp" "y_perm s1 = Some yp"
    "map_option gval (loss s1) = Some l"
    by (simp_all add: after_batch_fields)
  from Cons.IH [OF s1(2) k(2,3) rest]
  have "spec_batches T (model s) (map (\<lambda>t. (fx t, fy t)) ts) ((optimizer s1, mem s1), Some l)
      = Inr ((optimizer s', mem s'), map_option gval (loss s'))"
    by (simp add: k)
  with r(2) show ?case by simp
qed

lemma epoch_spec:
  assumes "randperm_ok T" "trainable s" "0 < n_batches s" "epoch_body T e s = Inr s'"
  shows "\<exists>p xp yp l v.
           randperm_sample T (n_batches s) (rng s) = (p, rng s')
           \<and> mset p = mset [0..<n_batches s]
           \<and> rand_perm s' = Some p \<and> x_perm s' = Some xp \<and> y_perm s' = Some yp
           \<and> index0 (data (mem s ! x_var s)) p = Inr xp
           \<and> index0 (data (mem s ! y_var s)) p = Inr yp
           \<and> (\<forall>t<n_batches s. p ! t < n_batches s
                 \<and> select0 xp t = Inr (batch_of (data (mem s ! x_var s)) (p ! t))
                 \<and> select0 yp t = Inr (batch_of (data (mem s ! y_var s)) (p ! t)))
           \<and> spec_batches T (model s)
                 (map (\<lambda>i. (batch_of (data (mem s ! x_var s)) i, batch_of (data (mem s ! y_var s)) i)) p)
                 ((optimizer s, mem s), None)
               = Inr ((optimizer s', mem s'), Some l)
           \<and> item l = Inr v \<and> history s' = history s @ [v]"
proof -
  let ?X = "data (mem s ! x_var s)" and ?Y = "data (mem s ! y_var s)" and ?n = "n_batches s"
  from shuffle_ok [OF assms(1,2)] obtain p g xp yp where
    sh: "randperm_sample T ?n (rng s) = (p, g)" "mset p = mset [0..<?n]"
      "index0 ?X p = Inr xp" "index0 ?Y p = Inr yp"
      "\<forall>t<?n. p ! t < ?n \<and> select0 xp t = select0 ?X (p ! t) \<and> select0 yp t = select0 ?Y (p ! t)"
      "shuffle T s = Inr (s\<lparr>rng := g, rand_perm := Some p, x_perm := Some xp, y_perm := Some yp\<rparr>)"
    by blast
  let ?sb = "s\<lparr>rng := g, rand_perm := Some p, x_perm := Some xp, y_perm := Some yp\<rparr>"
  from assms(2) have sx: "shape ?X = [?n, batch_size s, 1]" and sy: "shape ?Y = [?n, batch_size s, 1]"
    by (simp_all add: trainable_def)
  have lp: "length p = ?n" using randperm_ok_props(2) [OF assms(1) sh(1)] .
  have sel: "p ! t < ?n \<and> select0 xp t = Inr (batch_of ?X (p ! t))
      \<and> select0 yp t = Inr (batch_of ?Y (p ! t))" if "t < ?n" for t
  proof -
    from sh(5) that have a: "p ! t < ?n" "select0 xp t = select0 ?X (p ! t)"
      "select0 yp t = select0 ?Y (p ! t)" by simp_all
    from select0_batch_of [OF sx a(1)] select0_batch_of [OF sy a(1)] a show ?thesis by simp
  qed
  from assms(4) sh(6) obtain s2 where s2: "for_each (batch_body T e) [0..<?n] ?sb = Inr s2"
    "append_loss s2 = Inr s'"
    by (auto simp: epoch_body_def split: sum.splits)
  have xb: "x_perm ?sb = Some xp" "y_perm ?sb = Some yp" by simp_all
  have inr: "\<forall>t\<in>set [0..<?n]. select0 xp t = Inr (batch_of ?X (p ! t))
      \<and> select0 yp t = Inr (batch_of ?Y (p ! t))"
    using sel by simp
  from batches_spec [OF s2(1) xb inr]
  have sp: "spec_batches T (model s) (map (\<lambda>t. (batch_of ?X (p ! t), batch_of ?Y (p ! t))) [0..<?n])
      ((optimizer s, mem s), map_option gval (loss s))
      = Inr ((optimizer s2, mem s2), map_option gval (loss s2))"
    by simp
  have "map (\<lambda>i. (batch_of ?X i, batch_of ?Y i)) (map ((!) p) [0..<length p])
      = map (\<lambda>t. (batch_of ?X (p ! t), batch_of ?Y (p ! t))) [0..<?n]"
    by (simp add: lp)
  then have mp: "map (\<lambda>t. (batch_of ?X (p ! t), batch_of ?Y (p ! t))) [0..<?n]
      = map (\<lambda>i. (batch_of ?X i, batch_of ?Y i)) p"
    by (simp only: map_nth)
  from assms(3) lp have ne: "map (\<lambda>i. (batch_of ?X i, batch_of ?Y i)) p \<noteq> []" by auto
  from s2(2) obtain lo v where lo: "loss s2 = Some lo" "item (gval lo) = Inr v"
    "s' = s2\<lparr>history := history s2 @ [v]\<rparr>"
    by (auto simp: append_loss_def split: option.splits sum.splits)
  from batches_keep [OF s2(1)] have keep: "history s2 = history s" "rng s2 = g"
    "rand_perm s2 = Some p" "x_perm s2 = Some xp" "y_perm s2 = Some yp"
    by simp_all
  from sp have "spec_batches T (model s) (map (\<lambda>i. (batch_of ?X i, batch_of ?Y i)) p)
      ((optimizer s, mem s), map_option gval (loss s))
      = Inr ((optimizer s2, mem s2), Some (gval lo))"
    by (simp add: mp lo(1))
  with spec_batches_last [OF ne, of T "model s" "(optimizer s, mem s)" None "map_option gval (loss s)"]
  have sp': "spec_batches T (model s) (map (\<lambda>i. (batch_of ?X i, batch_of ?Y i)) p)
      ((optimizer s, mem s), None)
      = Inr ((optimizer s', mem s'), Some (gval lo))"
    by (simp add: lo(3))
  show ?thesis
    apply (rule exI [of _ p], rule exI [of _ xp], rule exI [of _ yp],
        rule exI [of _ "gval lo"], rule exI [of _ v])
    using sh(1,2,3,4) sel sp' lo(2) keep apply (simp add: lo(3))
    done
qed

lemma epochs_spec:
  assumes "randperm_ok T" "trainable s" "0 < n_batches s" "for_each (epoch_body T) es s = Inr s'"
  shows "spec_epochs T (model s) (data (mem s ! x_var s)) (data (mem s ! y_var s)) (n_batches s)
             (length es) ((optimizer s, mem s), rng s, history s)
           = Inr ((optimizer s', mem s'), rng s', history s')"
  using assms(2,3,4)
proof (induction es arbitrary: s)
  case Nil
  then show ?case by simp
next
  case (Cons e es)
  then obtain s1 where s1: "epoch_body T e s = Inr s1" "for_each (epoch_body T) es s1 = Inr s'"
    by (auto split: sum.splits)
  from epoch_spec [OF assms(1) Cons.prems(1,2) s1(1)] obtain p l v where
    ep: "randperm_sample T (n_batches s) (rng s) = (p, rng s1)"
      "spec_batches T (model s)
         (map (\<lambda>i. (batch_of (data (mem s ! x_var s)) i, batch_of (data (mem s ! y_var s)) i)) p)
         ((optimizer s, mem s), None)
       = Inr ((optimizer s1, mem s1), Some l)"
      "item l = Inr v" "history s1 = history s @ [v]"
    by blast
  have f1: "frame s s1"
    using epoch_frame [OF s1(1)] trainable_params [OF Cons.prems(1)] by simp
  have t1: "trainable s1" using frame_trainable [OF f1 Cons.prems(1)] .
  from f1 Cons.prems(1) have same: "model s1 = model s" "n_batches s1 = n_batches s"
    "x_var s1 = x_var s" "y_var s1 = y_var s"
    "mem s1 ! x_var s = mem s ! x_var s" "mem s1 ! y_var s = mem s ! y_var s"
    by (auto simp: frame_def trainable_def)
  from Cons.prems(2) same have n1: "0 < n_batches s1" by simp
  from Cons.IH [OF t1 n1 s1(2)]
  have "spec_epochs T (model s) (data (mem s ! x_var s)) (data (mem s ! y_var s)) (n_batches s)
      (length es) ((optimizer s1, mem s1), rng s1, history s @ [v])
      = Inr ((optimizer s', mem s'), rng s', history s')"
    by (simp add: same ep(4))
  with ep(1,2,3) show ?case by simp
qed

lemma batch_trace:
  assumes "randperm_ok T" "trainable sa" "t < n_batches sa" "epoch_body T e sa = Inr sa'"
  shows "\<exists>p sb sc sd se xp yp xb yb pred l.
           randperm_sample T (n_batches sa) (rng sa) = (p, rng sa')
           \<and> shuffle T sa = Inr sb
           \<and> for_each (batch_body T e) [0..<t] sb = Inr sc
           \<and> x_perm sc = Some xp \<and> y_perm sc = Some yp
           \<and> select0 xp t = Inr xb \<and> select0 yp t = Inr yb
           \<and> select0 (data (mem sa ! x_var sa)) (p ! t) = Inr xb
           \<and> select0 (data (mem sa ! y_var sa)) (p ! t) = Inr yb
           \<and> Linear_forward (mem sc) (model sc) xb = Inr pred
           \<and> MSELoss_sum pred yb = Inr l
           \<and> batch_body T e t sc = Inr sd
           \<and> sd = after_batch T e t sc xb yb pred l
           \<and> for_each (batch_body T e) [Suc t..<n_batches sa] sd = Inr se
           \<and> append_loss se = Inr sa'"
proof -
  let ?n = "n_batches sa"
  from shuffle_ok [OF assms(1,2)] obtain p g xp yp where
    sh: "randperm_sample T ?n (rng sa) = (p, g)"
      "\<forall>t<?n. p ! t < ?n \<and> select0 xp t = select0 (data (mem sa ! x_var sa)) (p ! t)
          \<and> select0 yp t = select0 (data (mem sa ! y_var sa)) (p ! t)"
      "shuffle T sa = Inr (sa\<lparr>rng := g, rand_perm := Some p, x_perm := Some xp, y_perm := Some yp\<rparr>)"
    by blast
  let ?sb = "sa\<lparr>rng := g, rand_perm := Some p, x_perm := Some xp, y_perm := Some yp\<rparr>"
  from assms(4) sh(3) obtain s2 where s2: "for_each (batch_body T e) [0..<?n] ?sb = Inr s2"
    "append_loss s2 = Inr sa'"
    by (auto simp: epoch_body_def split: sum.splits)
  from for_each_split [OF assms(3) s2(1)] obtain sc sd where
    tr: "for_each (batch_body T e) [0..<t] ?sb = Inr sc" "batch_body T e t sc = Inr sd"
      "for_each (batch_body T e) [Suc t..<?n] sd = Inr s2"
    by blast
  from batches_keep [OF tr(1)] have keep: "x_perm sc = Some xp" "y_perm sc = Some yp" by simp_all
  from tr(2) keep obtain xb yb pred l where
    b: "select0 xp t = Inr xb" "select0 yp t = Inr yb"
      "Linear_forward (mem sc) (model sc) xb = Inr pred" "MSELoss_sum pred yb = Inr l"
      "sd = after_batch T e t sc xb yb pred l"
    unfolding batch_body_Inr by auto
  from sh(2) assms(3) b(1,2) have orig: "select0 (data (mem sa ! x_var sa)) (p ! t) = Inr xb"
    "select0 (data (mem sa ! y_var sa)) (p ! t) = Inr yb"
    by simp_all
  from s2(2) have "rng sa' = rng s2"
    by (auto simp: append_loss_def split: option.splits sum.splits)
  moreover from batches_keep [OF s2(1)] have "rng s2 = g" by simp
  ultimately have g: "g = rng sa'" by simp
  note f = sh(1) [unfolded g] sh(3) tr(1) keep b(1,2) orig b(3,4) tr(2) b(5) tr(3) s2(2)
  show ?thesis
    apply (rule exI [of _ p], rule exI [of _ ?sb], rule exI [of _ sc], rule exI [of _ sd],
        rule exI [of _ s2], rule exI [of _ xp], rule exI [of _ yp], rule exI [of _ xb],
        rule exI [of _ yb], rule exI [of _ pred], rule exI [of _ l])
    apply (intro conjI)
    apply (fact f)+
    done
qed

section \<open>Properties of the layers\<close>

lemma MyLambda_init_eq:
  "MyLambda_init (Callable f) =
     Inr \<lparr>reg_parameters = [], reg_modules = [], plain_attrs = [(''func'', f)]\<rparr>"
  by (simp add: MyLambda_init_def setattr_def Module_init_def)

text \<open>
  C2: for every function \<open>f\<close> and every input \<open>x\<close>, constructing a \<^verbatim>\<open>MyLambda\<close> with
  \<open>f\<close> succeeds, the attribute \<^verbatim>\<open>func\<close> of the new layer is \<open>f\<close> itself, and the
  layer applied to \<open>x\<close> returns exactly \<open>f x\<close>, in every store.  The same holds when
  what is wrapped is a module \<open>r\<close>: it is kept as it is, and the layer returns what
  calling \<open>r\<close> on \<open>x\<close> returns.
\<close>

theorem MyLambda_stores_and_applies:
  "(\<exists>self. MyLambda_init (Callable f) = Inr self
       \<and> getattr self ''func'' = Inr (Callable f)
       \<and> (\<forall>h. MyLambda_forward h self x = f x))
   \<and> (\<exists>self. MyLambda_init (Module_value r) = Inr self
       \<and> getattr self ''func'' = Inr (Module_value r)
       \<and> (\<forall>h. MyLambda_forward h self x = view_call r h x))"
  by (simp add: MyLambda_init_def setattr_def Module_init_def getattr_def MyLambda_forward_def
      call_obj_def)

theorem MyLambda_stores_and_applies_witness:
  "\<exists>self. MyLambda_init (Callable (\<lambda>t. Inr (map_tensor (\<lambda>v. 2 * v) t))) = Inr self
      \<and> MyLambda_forward [] self (Tensor Float32 CPU [2] [1, 2]) = Inr (Tensor Float32 CPU [2] [2, 4])"
proof -
  let ?double = "\<lambda>t. Inr (map_tensor (\<lambda>v. 2 * v) t) :: error + tensor"
  from conjunct1 [OF MyLambda_stores_and_applies
      [of ?double "Tensor Float32 CPU [2] [1, 2]" "\<lparr>view_parameters = [], view_call = (\<lambda>h t. Inr t)\<rparr>"]]
  obtain self where "MyLambda_init (Callable ?double) = Inr self"
    "\<forall>h. MyLambda_forward h self (Tensor Float32 CPU [2] [1, 2]) = ?double (Tensor Float32 CPU [2] [1, 2])"
    by blast
  then show ?thesis
    by (auto simp: map_tensor_def)
qed

text \<open>
  C1: for a layer constructed by \<^verbatim>\<open>Linear\<close>, whose two parameters \<^verbatim>\<open>w\<close> and \<^verbatim>\<open>b\<close>
  are the objects at \<open>aw\<close> and \<open>ab\<close>, \<^verbatim>\<open>forward\<close> returns in every store \<open>h\<close> and for
  every input \<open>x\<close> the value of \<^verbatim>\<open>torch.matmul(x, self.w) + self.b\<close>: the sum of the
  matrix product of \<open>x\<close> and the data of \<^verbatim>\<open>w\<close> with the data of \<^verbatim>\<open>b\<close>, or the
  exception that the product or the sum raises.
\<close>

theorem Linear_forward_affine:
  assumes "Linear_init normal units input_dim h0 g = Inr (self, h1, g1)"
  shows "\<exists>aw ab. parameters self = [aw, ab]
           \<and> getattr self ''w'' = Inr (Parameter aw) \<and> getattr self ''b'' = Inr (Parameter ab)
           \<and> (\<forall>h x. Linear_forward h self x =
                  (case matmul x (data (h ! aw)) of
                     Inl e \<Rightarrow> Inl e
                   | Inr xw \<Rightarrow> add xw (data (h ! ab))))"
proof -
  from assms have self: "self = \<lparr>reg_parameters = [(''w'', length h0), (''b'', Suc (length h0))], reg_modules = [], plain_attrs = []\<rparr>"
    by (simp add: Linear_init_eq)
  show ?thesis
    unfolding self
    by (intro exI [of _ "length h0"] exI [of _ "Suc (length h0)"])
       (simp add: Linear_parameters Linear_getattr Linear_forward_eq)
qed

theorem Linear_forward_affine_witness:
  "\<exists>(self :: (tensor, tensor) module) h1 g1.
      Linear_init (\<lambda>g :: nat. (2, Suc g)) 1 1 [] 0 = Inr (self, h1, g1)
      \<and> Linear_forward h1 self (Tensor Float32 CPU [1] [10]) = Inr (Tensor Float32 CPU [1] [20])"
proof -
  let ?n = "\<lambda>g :: nat. (2 :: real, Suc g)"
  obtain self :: "(tensor, tensor) module" and h1 g1
    where i: "Linear_init ?n 1 1 [] 0 = Inr (self, h1, g1)"
    by (simp add: Linear_init_eq)
  from Linear_forward_affine [OF i] obtain aw ab where
    p: "parameters self = [aw, ab]" and
    f: "\<forall>h x. Linear_forward h self x =
          (case matmul x (data (h ! aw)) of Inl e \<Rightarrow> Inl e | Inr xw \<Rightarrow> add xw (data (h ! ab)))"
    by blast
  from i have s: "self = \<lparr>reg_parameters = [(''w'', 0), (''b'', Suc 0)], reg_modules = [], plain_attrs = []\<rparr>"
    and h: "h1 = [\<lparr>data = Tensor Float32 CPU [1, 1] [2], grad = None, requires_grad = True\<rparr>,
                  \<lparr>data = Tensor Float32 CPU [1] [0], grad = None, requires_grad = True\<rparr>]"
    by (auto simp: Linear_init_eq rand_tensor_def numel_def zeros_def)
  from p s have a: "aw = 0" "ab = Suc 0" by (simp_all add: parameters_def)
  have "Linear_forward h1 self (Tensor Float32 CPU [1] [10]) = Inr (Tensor Float32 CPU [1] [20])"
    using f a h matmul_1_11 [of Float32 CPU 10 2] add_1_1 [of Float32 CPU 20 0]
    by (simp add: is_floating_def)
  with i show ?thesis by blast
qed

text \<open>
  C5: \<^verbatim>\<open>Linear(units, input_dim)\<close> always succeeds.  The new layer has exactly two
  registered parameters, \<^verbatim>\<open>w\<close> and \<^verbatim>\<open>b\<close>, and no other attribute; they are two
  distinct new objects of the store, of shapes \<open>[input_dim, units]\<close> and \<open>[units]\<close>,
  both \<^verbatim>\<open>float32\<close> tensors on the CPU, both requiring a gradient (and without one yet),
  and \<^verbatim>\<open>parameters()\<close> yields the two of them.  The objects already in the store are
  unchanged.
\<close>

theorem Linear_two_parameters:
  "\<exists>self h1 g1 aw ab.
      Linear_init normal units input_dim h g = Inr (self, h1, g1)
      \<and> reg_parameters self = [(''w'', aw), (''b'', ab)]
      \<and> reg_modules self = [] \<and> plain_attrs self = []
      \<and> parameters self = [aw, ab] \<and> aw \<noteq> ab
      \<and> length h1 = length h + 2 \<and> take (length h) h1 = h
      \<and> aw < length h1 \<and> length h \<le> aw \<and> ab < length h1 \<and> length h \<le> ab
      \<and> shape (data (h1 ! aw)) = [input_dim, units] \<and> wf_tensor (data (h1 ! aw))
      \<and> shape (data (h1 ! ab)) = [units] \<and> wf_tensor (data (h1 ! ab))
      \<and> float_cpu (data (h1 ! aw)) \<and> float_cpu (data (h1 ! ab))
      \<and> requires_grad (h1 ! aw) \<and> requires_grad (h1 ! ab)
      \<and> grad (h1 ! aw) = None \<and> grad (h1 ! ab) = None"
  unfolding Linear_init_eq
  by (rule exI [of _ "\<lparr>reg_parameters = [(''w'', length h), (''b'', Suc (length h))], reg_modules = [], plain_attrs = []\<rparr>"],
      rule exI [of _ "h @ [\<lparr>data = fst (rand_tensor normal [input_dim, units] g), grad = None, requires_grad = True\<rparr>,
               \<lparr>data = zeros [units], grad = None, requires_grad = True\<rparr>]"],
      rule exI [of _ "snd (rand_tensor normal [input_dim, units] g)"],
      rule exI [of _ "length h"], rule exI [of _ "Suc (length h)"])
     (simp add: Linear_parameters rand_tensor_shape rand_tensor_wf rand_tensor_float zeros_wf
        zeros_float nth_append,
      simp add: zeros_def)

theorem Linear_two_parameters_witness:
  "\<exists>(self :: (tensor, tensor) module) h1 g1.
      Linear_init (\<lambda>g :: nat. (2, Suc g)) 1 1 [] 0 = Inr (self, h1, g1)
      \<and> parameters self = [0, 1] \<and> length h1 = 2
      \<and> shape (data (h1 ! 0)) = [1, 1] \<and> shape (data (h1 ! 1)) = [1]"
proof -
  from Linear_two_parameters [of "\<lambda>g :: nat. (2, Suc g)" 1 1 "[]" 0]
  obtain self :: "(tensor, tensor) module" and h1 g1 aw ab where
    r: "Linear_init (\<lambda>g :: nat. (2, Suc g)) 1 1 [] 0 = Inr (self, h1, g1)"
      "parameters self = [aw, ab]" "aw \<noteq> ab" "length h1 = length ([] :: store) + 2"
      "aw < length h1" "ab < length h1"
      "shape (data (h1 ! aw)) = [1, 1]" "shape (data (h1 ! ab)) = [1]"
      "reg_parameters self = [(''w'', aw), (''b'', ab)]"
    by blast
  from r(1,9) have "aw = 0" "ab = 1"
    by (auto simp: Linear_init_eq)
  with r show ?thesis by auto
qed

text \<open>
  C8, as amended: for a layer constructed by \<^verbatim>\<open>Linear(units, input_dim)\<close>, in a store
  where \<^verbatim>\<open>w\<close> and \<^verbatim>\<open>b\<close> have the shapes they were constructed with, one floating
  dtype and one device, \<^verbatim>\<open>forward(x)\<close> returns a tensor exactly when \<open>x\<close> has the dtype
  of \<^verbatim>\<open>w\<close>, is on the device of \<^verbatim>\<open>w\<close>, has a last dimension, and the size of that
  dimension is \<open>input_dim\<close>; the result then has the shape of \<open>x\<close> with the last
  dimension replaced by \<open>units\<close>, as many elements as that shape needs, and the dtype
  and the device of \<open>x\<close>.
\<close>

theorem Linear_forward_defined:
  assumes "Linear_init normal units input_dim h0 g = Inr (self, h1, g1)"
    and "shape (data (h ! (parameters self ! 0))) = [input_dim, units]"
    and "shape (data (h ! (parameters self ! 1))) = [units]"
    and "is_floating (dtype (data (h ! (parameters self ! 0))))"
    and "dtype (data (h ! (parameters self ! 1))) = dtype (data (h ! (parameters self ! 0)))"
    and "device (data (h ! (parameters self ! 1))) = device (data (h ! (parameters self ! 0)))"
  shows "((\<exists>out. Linear_forward h self x = Inr out) \<longleftrightarrow>
            dtype x = dtype (data (h ! (parameters self ! 0)))
            \<and> device x = device (data (h ! (parameters self ! 0)))
            \<and> shape x \<noteq> [] \<and> last (shape x) = input_dim)
       \<and> (\<forall>out. Linear_forward h self x = Inr out \<longrightarrow>
            shape out = butlast (shape x) @ [units] \<and> wf_tensor out
            \<and> dtype out = dtype x \<and> device out = device x)"
proof -
  let ?aw = "length h0" and ?ab = "Suc (length h0)"
  from assms(1) have self: "self = \<lparr>reg_parameters = [(''w'', ?aw), (''b'', ?ab)], reg_modules = [], plain_attrs = []\<rparr>"
    by (simp add: Linear_init_eq)
  have p: "parameters self ! 0 = ?aw" "parameters self ! 1 = ?ab"
    by (simp_all add: self Linear_parameters)
  from assms(2-6) have w: "shape (data (h ! ?aw)) = [input_dim, units]"
    and b: "shape (data (h ! ?ab)) = [units]"
    and fl: "is_floating (dtype (data (h ! ?aw)))"
    and kb: "dtype (data (h ! ?ab)) = dtype (data (h ! ?aw))"
      "device (data (h ! ?ab)) = device (data (h ! ?aw))"
    unfolding p by simp_all
  have fwd: "Linear_forward h self x =
      (case matmul x (data (h ! ?aw)) of Inl e \<Rightarrow> Inl e | Inr xw \<Rightarrow> add xw (data (h ! ?ab)))"
    by (simp add: self Linear_forward_eq)
  have addok: "\<exists>out. add xw (data (h ! ?ab)) = Inr out \<and> shape out = butlast (shape x) @ [units]
        \<and> wf_tensor out \<and> dtype out = dtype x \<and> device out = device x"
    if "matmul x (data (h ! ?aw)) = Inr xw" for xw
  proof -
    from matmul_2d_shape [OF w that] have sx: "shape xw = butlast (shape x) @ [units]" by simp
    from matmul_kind [OF that] kb have k: "dtype xw = dtype (data (h ! ?ab))"
      "device xw = device (data (h ! ?ab))"
      and kx: "dtype x = dtype (data (h ! ?ab))" "device x = device (data (h ! ?ab))"
      by simp_all
    show ?thesis
      by (simp add: add_def pointwise_def b sx broadcast_shapes_last wf_tensor_def indices_length
          result_same [OF k] kx)
  qed
  show ?thesis
    unfolding p
  proof (cases "matmul x (data (h ! ?aw))")
    case (Inl e)
    with matmul_2d_defined [OF w fl, of x] show
      "((\<exists>out. Linear_forward h self x = Inr out) \<longleftrightarrow>
            dtype x = dtype (data (h ! ?aw)) \<and> device x = device (data (h ! ?aw))
            \<and> shape x \<noteq> [] \<and> last (shape x) = input_dim)
       \<and> (\<forall>out. Linear_forward h self x = Inr out \<longrightarrow>
            shape out = butlast (shape x) @ [units] \<and> wf_tensor out
            \<and> dtype out = dtype x \<and> device out = device x)"
      by (auto simp: fwd)
  next
    case (Inr xw)
    with matmul_2d_defined [OF w fl, of x] addok [OF Inr] show
      "((\<exists>out. Linear_forward h self x = Inr out) \<longleftrightarrow>
            dtype x = dtype (data (h ! ?aw)) \<and> device x = device (data (h ! ?aw))
            \<and> shape x \<noteq> [] \<and> last (shape x) = input_dim)
       \<and> (\<forall>out. Linear_forward h self x = Inr out \<longrightarrow>
            shape out = butlast (shape x) @ [units] \<and> wf_tensor out
            \<and> dtype out = dtype x \<and> device out = device x)"
      by (auto simp: fwd)
  qed
qed

theorem Linear_forward_defined_witness:
  "(\<exists>out. Linear_forward
            [\<lparr>data = Tensor Float32 CPU [1, 2] [2, 2], grad = None, requires_grad = True\<rparr>,
             \<lparr>data = Tensor Float32 CPU [2] [0, 0], grad = None, requires_grad = True\<rparr>]
            (\<lparr>reg_parameters = [(''w'', 0), (''b'', 1)], reg_modules = [], plain_attrs = []\<rparr>
               :: (tensor, tensor) module)
            (Tensor Float32 CPU [3, 1] [1, 2, 3]) = Inr out
         \<and> shape out = [3, 2] \<and> dtype out = Float32 \<and> device out = CPU)
   \<and> (\<nexists>out. Linear_forward
            [\<lparr>data = Tensor Float32 CPU [1, 2] [2, 2], grad = None, requires_grad = True\<rparr>,
             \<lparr>data = Tensor Float32 CPU [2] [0, 0], grad = None, requires_grad = True\<rparr>]
            (\<lparr>reg_parameters = [(''w'', 0), (''b'', 1)], reg_modules = [], plain_attrs = []\<rparr>
               :: (tensor, tensor) module)
            (Tensor Float32 CPU [3, 2] [1, 2, 3, 4, 5, 6]) = Inr out)
   \<and> (\<nexists>out. Linear_forward
            [\<lparr>data = Tensor Float32 CPU [1, 2] [2, 2], grad = None, requires_grad = True\<rparr>,
             \<lparr>data = Tensor Float32 CPU [2] [0, 0], grad = None, requires_grad = True\<rparr>]
            (\<lparr>reg_parameters = [(''w'', 0), (''b'', 1)], reg_modules = [], plain_attrs = []\<rparr>
               :: (tensor, tensor) module)
            (Tensor Float32 (CUDA 0) [3, 1] [1, 2, 3]) = Inr out)"
proof -
  let ?H = "[\<lparr>data = Tensor Float32 CPU [1, 2] [2, 2], grad = None, requires_grad = True\<rparr>,
             \<lparr>data = Tensor Float32 CPU [2] [0, 0], grad = None, requires_grad = True\<rparr>]"
  let ?M = "\<lparr>reg_parameters = [(''w'', 0), (''b'', 1)], reg_modules = [], plain_attrs = []\<rparr> :: (tensor, tensor) module"
  have i: "Linear_init (\<lambda>g :: nat. (2, Suc g)) 2 1 [] 0 = Inr (?M, ?H, 2)"
    by (simp add: Linear_init_eq rand_tensor_def numel_def zeros_def numeral_2_eq_2)
  have w: "shape (data (?H ! (parameters ?M ! 0))) = [1, 2]"
    and b: "shape (data (?H ! (parameters ?M ! 1))) = [2]"
    and fl: "is_floating (dtype (data (?H ! (parameters ?M ! 0))))"
    and kd: "dtype (data (?H ! (parameters ?M ! 1))) = dtype (data (?H ! (parameters ?M ! 0)))"
    and kv: "device (data (?H ! (parameters ?M ! 1))) = device (data (?H ! (parameters ?M ! 0)))"
    by (simp_all add: parameters_def is_floating_def)
  have p: "parameters ?M ! 0 = 0" by (simp add: parameters_def)
  from Linear_forward_defined [OF i w b fl kd kv, of "Tensor Float32 CPU [3, 1] [1, 2, 3]"]
    Linear_forward_defined [OF i w b fl kd kv, of "Tensor Float32 CPU [3, 2] [1, 2, 3, 4, 5, 6]"]
    Linear_forward_defined [OF i w b fl kd kv, of "Tensor Float32 (CUDA 0) [3, 1] [1, 2, 3]"]
  show ?thesis unfolding p by auto
qed

text \<open>
  The claim C8 as it is written, with the size of the last dimension as the only
  condition, fails for an input of another dtype than that of \<^verbatim>\<open>w\<close>: the matrix product
  does not promote dtypes.  For \<^verbatim>\<open>Linear(units=2, input_dim=1)\<close> in a new store, an
  input of shape \<open>(3, 1)\<close> has a last dimension of size \<open>input_dim\<close>;
  \<^verbatim>\<open>forward\<close> returns a tensor of shape \<open>(3, 2)\<close> for the \<^verbatim>\<open>float32\<close> input, and raises
  \<^verbatim>\<open>RuntimeError\<close> for the \<^verbatim>\<open>int64\<close> input and for the \<^verbatim>\<open>float64\<close> input with the same
  shape and elements.
\<close>

theorem Linear_forward_other_dtype_raises:
  "(case (Linear_init (\<lambda>g :: nat. (2, Suc g)) 2 1 [] 0
           :: error + ((tensor, tensor) module \<times> store \<times> nat)) of
      Inl er \<Rightarrow> Inl er
    | Inr (lin, h1, g1) \<Rightarrow>
        Inr (last (shape (Tensor Int64 CPU [3, 1] [1, 2, 3])),
             map_sum id shape (Linear_forward h1 lin (Tensor Float32 CPU [3, 1] [1, 2, 3])),
             Linear_forward h1 lin (Tensor Int64 CPU [3, 1] [1, 2, 3]),
             Linear_forward h1 lin (Tensor Float64 CPU [3, 1] [1, 2, 3])))
   = Inr (1, Inr [3, 2], Inl RuntimeError, Inl RuntimeError)"
  by (simp add: Linear_init_eq Linear_forward_eq matmul_def Let_def add_def pointwise_def
      broadcast_shapes_def result_type_def result_device_def promote_types_def
      rand_tensor_def numel_def zeros_def draw_2)

text \<open>
  C10, as amended: for every plain function \<open>f\<close> (a value that is neither a module
  nor a Parameter), the layer \<^verbatim>\<open>MyLambda(f)\<close> keeps \<open>f\<close> as a plain attribute and
  registers neither a parameter nor a submodule: \<^verbatim>\<open>parameters()\<close> yields nothing, an
  optimizer cannot even be constructed from it, and a step of any optimizer in any
  store leaves the state of the layer as it is.
\<close>

theorem MyLambda_no_parameters:
  "\<exists>self. MyLambda_init (Callable f) = Inr self
      \<and> reg_parameters self = [] \<and> reg_modules self = []
      \<and> plain_attrs self = [(''func'', f)]
      \<and> parameters self = []
      \<and> Adam_init T (parameters self) = Inl ValueError
      \<and> (\<forall>T' opt h. state_of (snd (step T' opt h)) self = state_of h self)"
proof -
  let ?self = "\<lparr>reg_parameters = [], reg_modules = [], plain_attrs = [(''func'', f)]\<rparr>"
  have init: "MyLambda_init (Callable f) = Inr ?self"
    by (rule MyLambda_init_eq)
  have none: "parameters ?self = []"
    by (simp add: parameters_def)
  have adam: "Adam_init T (parameters ?self) = Inl ValueError"
    by (simp add: none Adam_init_def)
  have same: "\<forall>T' opt h. state_of (snd (step T' opt h)) ?self = state_of h ?self"
    by (simp add: state_of_def none)
  from init none adam same show ?thesis
    by simp
qed

theorem MyLambda_no_parameters_witness:
  "\<exists>self. MyLambda_init (Callable (\<lambda>t. Inr (map_tensor (\<lambda>v. 2 * v) t))) = Inr self
      \<and> parameters self = []
      \<and> Adam_init example_torch (parameters self) = Inl ValueError"
  using MyLambda_no_parameters [of "\<lambda>t. Inr (map_tensor (\<lambda>v. 2 * v) t)" example_torch]
  by auto

text \<open>
  The claim C10 as it is written, for whatever is wrapped, fails when the wrapped
  callable is itself a module: the assignment to \<^verbatim>\<open>func\<close> registers it as a submodule,
  and its parameters are parameters of the wrapper.  For
  \<^verbatim>\<open>MyLambda(Linear(units=1, input_dim=1))\<close> in a new store, \<^verbatim>\<open>parameters()\<close> yields
  \<^verbatim>\<open>w\<close> and \<^verbatim>\<open>b\<close> (the objects 0 and 1), and the wrapper applied to \<open>[10]\<close> returns what
  the wrapped layer returns.
\<close>

theorem MyLambda_of_Linear_has_parameters:
  "(case (Linear_init (\<lambda>g :: nat. (2, Suc g)) 1 1 [] 0
           :: error + ((tensor, tensor) module \<times> store \<times> nat)) of
      Inl er \<Rightarrow> Inl er
    | Inr (lin, h1, g1) \<Rightarrow>
        (case MyLambda_init (Module_value (Linear_value lin)) of
           Inl er \<Rightarrow> Inl er
         | Inr wrapper \<Rightarrow>
             Inr (parameters wrapper, MyLambda_forward h1 wrapper (Tensor Float32 CPU [1] [10]))))
   = Inr ([0, 1], Inr (Tensor Float32 CPU [1] [20]))"
  using matmul_1_11 [of Float32 CPU 10 2] add_1_1 [of Float32 CPU 20 0]
  by (simp add: Linear_init_eq MyLambda_init_def setattr_def Module_init_def Linear_value_def
      parameters_def getattr_def MyLambda_forward_def call_obj_def Linear_forward_eq
      rand_tensor_def numel_def zeros_def is_floating_def)

section \<open>Properties of the training cell\<close>

text \<open>
  C7: the model of the training cell is the layer that \<^verbatim>\<open>Linear(units=1, input_dim=1)\<close>
  constructs: its two parameters have the shapes \<open>[1, 1]\<close> and \<open>[1]\<close> and are
  \<^verbatim>\<open>float32\<close> tensors on the CPU; training neither replaces the model nor changes these
  shapes, the dtype or the device; and in every store where the two parameters hold
  the numbers \<open>wv\<close> and \<open>bv\<close> (with one floating dtype, on one device), the
  prediction for the one-element input \<open>[xv]\<close> of that dtype on that device is
  \<open>[wv * xv + bv]\<close>.
\<close>

theorem model_is_Linear_1_1:
  "\<exists>s0 aw ab.
      prepare T E = Inr s0
      \<and> Linear_init (normal_sample T) 1 1 (e_mem E) (e_rng E) = Inr (model s0, mem s0, rng s0)
      \<and> parameters (model s0) = [aw, ab]
      \<and> shape (data (mem s0 ! aw)) = [1, 1] \<and> shape (data (mem s0 ! ab)) = [1]
      \<and> float_cpu (data (mem s0 ! aw)) \<and> float_cpu (data (mem s0 ! ab))
      \<and> (\<forall>s. training_cell T E = Inr s \<longrightarrow>
            model s = model s0 \<and> shape (data (mem s ! aw)) = [1, 1]
            \<and> shape (data (mem s ! ab)) = [1]
            \<and> float_cpu (data (mem s ! aw)) \<and> float_cpu (data (mem s ! ab)))
      \<and> (\<forall>hh dt dv wv bv xv.
            is_floating dt \<longrightarrow>
            data (hh ! aw) = Tensor dt dv [1, 1] [wv] \<longrightarrow> data (hh ! ab) = Tensor dt dv [1] [bv] \<longrightarrow>
            Linear_forward hh (model s0) (Tensor dt dv [1] [xv]) = Inr (Tensor dt dv [1] [wv * xv + bv]))"
proof -
  obtain s0 where s0: "prepare T E = Inr s0" by (simp add: prepare_eq)
  let ?aw = "length (e_mem E)" and ?ab = "Suc (length (e_mem E))"
  from s0 have m: "model s0 = \<lparr>reg_parameters = [(''w'', ?aw), (''b'', ?ab)], reg_modules = [], plain_attrs = []\<rparr>"
    and p: "parameters (model s0) = [?aw, ?ab]" "opt_params (optimizer s0) = [?aw, ?ab]"
    and sh: "shape (data (mem s0 ! ?aw)) = [1, 1]" "shape (data (mem s0 ! ?ab)) = [1]"
    and li: "Linear_init (normal_sample T) 1 1 (e_mem E) (e_rng E) = Inr (model s0, mem s0, rng s0)"
    by (auto simp: prepare_eq Linear_parameters Linear_init_eq rand_tensor_shape zeros_def nth_append)
  from s0 have fc: "float_cpu (data (mem s0 ! ?aw))" "float_cpu (data (mem s0 ! ?ab))"
    by (auto simp: prepare_eq rand_tensor_float zeros_float nth_append)
  have tr: "model s = model s0 \<and> shape (data (mem s ! ?aw)) = [1, 1]
      \<and> shape (data (mem s ! ?ab)) = [1]
      \<and> float_cpu (data (mem s ! ?aw)) \<and> float_cpu (data (mem s ! ?ab))"
    if "training_cell T E = Inr s" for s
  proof -
    from that have "for_each (epoch_body T) [0..<epoches s0] s0 = Inr s"
      by (simp add: training_cell_eq [OF s0])
    from epochs_frame [OF this] p have "frame s0 s" by simp
    with sh fc show ?thesis by (simp add: frame_def float_cpu_def)
  qed
  have fw: "Linear_forward hh (model s0) (Tensor dt dv [1] [xv]) = Inr (Tensor dt dv [1] [wv * xv + bv])"
    if "is_floating dt" "data (hh ! ?aw) = Tensor dt dv [1, 1] [wv]"
      "data (hh ! ?ab) = Tensor dt dv [1] [bv]"
    for hh dt dv wv bv xv
    using that(2,3) matmul_1_11 [OF that(1), of dv xv wv] add_1_1 [of dt dv "xv * wv" bv]
    by (simp add: m Linear_forward_eq mult.commute)
  from s0 li p(1) sh fc tr fw show ?thesis
    by (intro exI [of _ s0] exI [of _ ?aw] exI [of _ ?ab]) blast
qed


theorem model_is_Linear_1_1_witness:
  "\<exists>s. training_cell example_torch
          \<lparr>e_mem = [\<lparr>data = Tensor Float32 CPU [1, 1, 1] [0], grad = None, requires_grad = False\<rparr>,
                     \<lparr>data = Tensor Float32 CPU [1, 1, 1] [11 / 2], grad = None, requires_grad = False\<rparr>],
            e_rng = 2, e_n_batches = 1, e_batch_size = 1, e_epoches = 1, e_x = 0, e_y = 1\<rparr>
        = Inr s
      \<and> Linear_forward (mem s) (model s) (Tensor Float32 CPU [1] [10]) = Inr (Tensor Float32 CPU [1] [989 / 100])"
proof -
  let ?E = "\<lparr>e_mem = [\<lparr>data = Tensor Float32 CPU [1, 1, 1] [0], grad = None, requires_grad = False\<rparr>,
                     \<lparr>data = Tensor Float32 CPU [1, 1, 1] [11 / 2], grad = None, requires_grad = False\<rparr>],
            e_rng = 2 :: nat, e_n_batches = 1, e_batch_size = 1, e_epoches = 1, e_x = 0, e_y = 1\<rparr>"
  from example_trained obtain s where
    s: "training_cell example_torch ?E = Inr s"
    and d: "data (mem s ! 2) = Tensor Float32 CPU [1, 1] [99 / 100]"
      "data (mem s ! 3) = Tensor Float32 CPU [1] [- (1 / 100)]"
    by (cases "training_cell example_torch ?E") auto
  from model_is_Linear_1_1 [of example_torch ?E] obtain s0 aw ab where
    s0: "prepare example_torch ?E = Inr s0" "parameters (model s0) = [aw, ab]"
    and tr: "\<forall>s. training_cell example_torch ?E = Inr s \<longrightarrow> model s = model s0"
    and fw: "\<forall>hh dt dv wv bv xv.
            is_floating dt \<longrightarrow>
            data (hh ! aw) = Tensor dt dv [1, 1] [wv] \<longrightarrow> data (hh ! ab) = Tensor dt dv [1] [bv] \<longrightarrow>
            Linear_forward hh (model s0) (Tensor dt dv [1] [xv]) = Inr (Tensor dt dv [1] [wv * xv + bv])"
    by blast
  from s0 have a: "aw = 2" "ab = 3"
    by (auto simp: prepare_eq parameters_def)
  have "is_floating Float32" by (simp add: is_floating_def)
  with fw a d have "Linear_forward (mem s) (model s0) (Tensor Float32 CPU [1] [10])
      = Inr (Tensor Float32 CPU [1] [99 / 100 * 10 + - (1 / 100)])"
    by blast
  moreover from tr s have "model s = model s0" by blast
  ultimately show ?thesis using s by auto
qed

text \<open>
  C3: when \<^verbatim>\<open>torch.randperm\<close> returns permutations and there is at least one batch, the
  training cell run after the data cell returns, and
  \<^item> the optimizer, the store, the generator and the history that it leaves are those
    of the training as it is described (\<open>spec_epochs\<close>): for every epoch in order and
    every batch of it in order, the forward pass on the batch inputs, the loss against
    the batch targets, the zeroing of the gradients, the backpropagation and one step
    of the optimizer;
  \<^item> the calls it has made are these five, in this order, for every batch of every
    epoch, and nothing else;
  \<^item> for every epoch \<open>e\<close> and every batch \<open>t\<close>, the run goes through a state \<open>sc\<close>
    before and a state \<open>sd\<close> after the batch (after the epochs before \<open>e\<close>, the
    shuffle of epoch \<open>e\<close> and its batches before \<open>t\<close>; the rest of the epoch, the
    appending of the loss and the epochs after \<open>e\<close> lead from \<open>sd\<close> to the final state),
    such that the prediction is the forward pass on the batch inputs \<open>x_perm[t]\<close> in
    the store of \<open>sc\<close>, the loss is the criterion of the prediction and the batch targets
    \<open>y_perm[t]\<close>, and the store of \<open>sd\<close> is the store of \<open>sc\<close> after \<^verbatim>\<open>zero_grad\<close>, then
    \<^verbatim>\<open>backward\<close> of this loss, then \<^verbatim>\<open>step\<close>.
\<close>

theorem training_loop_order:
  assumes "randperm_ok T" "0 < nbat" "data_cell T nbat bsz eps h g = Inr E"
  shows "\<exists>s0 s.
           prepare T E = Inr s0 \<and> training_cell T E = Inr s
           \<and> spec_epochs T (model s0) (data (e_mem E ! e_x E)) (data (e_mem E ! e_y E)) nbat eps
                 ((optimizer s0, mem s0), rng s0, [])
               = Inr ((optimizer s, mem s), rng s, history s)
           \<and> calls s = concat (map (\<lambda>e. concat (map (\<lambda>t.
                 [Forward e t, Criterion e t, ZeroGrad e t, Backward e t, Step e t])
                 [0..<nbat])) [0..<eps])
           \<and> (\<forall>e<eps. \<forall>t<nbat. \<exists>sa sb sc sd se sa' xp yp xb yb pred l.
                  for_each (epoch_body T) [0..<e] s0 = Inr sa
                  \<and> shuffle T sa = Inr sb
                  \<and> for_each (batch_body T e) [0..<t] sb = Inr sc
                  \<and> x_perm sc = Some xp \<and> y_perm sc = Some yp
                  \<and> select0 xp t = Inr xb \<and> select0 yp t = Inr yb
                  \<and> Linear_forward (mem sc) (model sc) xb = Inr pred
                  \<and> MSELoss_sum pred yb = Inr l
                  \<and> batch_body T e t sc = Inr sd
                  \<and> y_pred sd = Some \<lparr>gval = pred, gleaves = parameters (model sc), ginputs = [xb]\<rparr>
                  \<and> loss sd = Some \<lparr>gval = l, gleaves = parameters (model sc), ginputs = [xb, yb]\<rparr>
                  \<and> mem sd =
                      snd (step T (optimizer sc)
                             (backward T \<lparr>gval = l, gleaves = parameters (model sc), ginputs = [xb, yb]\<rparr>
                                (zero_grad (optimizer sc) (mem sc))))
                  \<and> optimizer sd =
                      fst (step T (optimizer sc)
                             (backward T \<lparr>gval = l, gleaves = parameters (model sc), ginputs = [xb, yb]\<rparr>
                                (zero_grad (optimizer sc) (mem sc))))
                  \<and> calls sd = calls sc @ [Forward e t, Criterion e t, ZeroGrad e t, Backward e t, Step e t]
                  \<and> for_each (batch_body T e) [Suc t..<nbat] sd = Inr se
                  \<and> append_loss se = Inr sa'
                  \<and> epoch_body T e sa = Inr sa'
                  \<and> for_each (epoch_body T) [Suc e..<eps] sa' = Inr s)"
proof -
  from prepare_trainable [OF assms(3)] obtain s0 where
    s0: "prepare T E = Inr s0" "trainable s0" "n_batches s0 = nbat" "epoches s0 = eps"
      "calls s0 = []" "history s0 = []"
      "mem s0 ! x_var s0 = e_mem E ! e_x E" "mem s0 ! y_var s0 = e_mem E ! e_y E"
    by blast
  from epochs_ok [OF assms(1) s0(2), of eps] assms(2) s0(3,5)
  obtain s where s: "for_each (epoch_body T) [0..<eps] s0 = Inr s"
    "calls s = concat (map (epoch_calls nbat) [0..<eps])"
    by auto
  have run: "training_cell T E = Inr s"
    using s(1) by (simp add: training_cell_eq [OF s0(1)] s0(4))
  from epochs_spec [OF assms(1) s0(2) _ s(1)] assms(2) s0(3,6,7,8)
  have sp: "spec_epochs T (model s0) (data (e_mem E ! e_x E)) (data (e_mem E ! e_y E)) nbat eps
      ((optimizer s0, mem s0), rng s0, []) = Inr ((optimizer s, mem s), rng s, history s)"
    by simp
  have bc: "batch_calls e = (\<lambda>t. [Forward e t, Criterion e t, ZeroGrad e t, Backward e t, Step e t])"
    for e by (rule ext) (simp add: batch_calls_def)
  have "epoch_calls nbat = (\<lambda>e. concat (map (\<lambda>t.
           [Forward e t, Criterion e t, ZeroGrad e t, Backward e t, Step e t]) [0..<nbat]))"
    by (rule ext) (simp add: epoch_calls_def bc)
  with s(2) have cl: "calls s = concat (map (\<lambda>e. concat (map (\<lambda>t.
                 [Forward e t, Criterion e t, ZeroGrad e t, Backward e t, Step e t])
                 [0..<nbat])) [0..<eps])"
    by simp
  have tr: "\<exists>sa sb sc sd se sa' xp yp xb yb pred l.
                  for_each (epoch_body T) [0..<e] s0 = Inr sa
                  \<and> shuffle T sa = Inr sb
                  \<and> for_each (batch_body T e) [0..<t] sb = Inr sc
                  \<and> x_perm sc = Some xp \<and> y_perm sc = Some yp
                  \<and> select0 xp t = Inr xb \<and> select0 yp t = Inr yb
                  \<and> Linear_forward (mem sc) (model sc) xb = Inr pred
                  \<and> MSELoss_sum pred yb = Inr l
                  \<and> batch_body T e t sc = Inr sd
                  \<and> y_pred sd = Some \<lparr>gval = pred, gleaves = parameters (model sc), ginputs = [xb]\<rparr>
                  \<and> loss sd = Some \<lparr>gval = l, gleaves = parameters (model sc), ginputs = [xb, yb]\<rparr>
                  \<and> mem sd =
                      snd (step T (optimizer sc)
                             (backward T \<lparr>gval = l, gleaves = parameters (model sc), ginputs = [xb, yb]\<rparr>
                                (zero_grad (optimizer sc) (mem sc))))
                  \<and> optimizer sd =
                      fst (step T (optimizer sc)
                             (backward T \<lparr>gval = l, gleaves = parameters (model sc), ginputs = [xb, yb]\<rparr>
                                (zero_grad (optimizer sc) (mem sc))))
                  \<and> calls sd = calls sc @ [Forward e t, Criterion e t, ZeroGrad e t, Backward e t, Step e t]
                  \<and> for_each (batch_body T e) [Suc t..<nbat] sd = Inr se
                  \<and> append_loss se = Inr sa'
                  \<and> epoch_body T e sa = Inr sa'
                  \<and> for_each (epoch_body T) [Suc e..<eps] sa' = Inr s"
    if e: "e < eps" and t: "t < nbat" for e t
  proof -
    from for_each_split [OF e s(1)] obtain sa sa' where
      ep: "for_each (epoch_body T) [0..<e] s0 = Inr sa" "epoch_body T e sa = Inr sa'"
        "for_each (epoch_body T) [Suc e..<eps] sa' = Inr s"
      by blast
    have fa: "frame s0 sa"
      using epochs_frame [OF ep(1)] trainable_params [OF s0(2)] by simp
    have ta: "trainable sa" using frame_trainable [OF fa s0(2)] .
    from fa s0(3) have na: "n_batches sa = nbat" by (simp add: frame_def)
    from batch_trace [OF assms(1) ta _ ep(2), of t] t na
    obtain sb sc sd se xp yp xb yb pred l where
      b: "shuffle T sa = Inr sb" "for_each (batch_body T e) [0..<t] sb = Inr sc"
        "x_perm sc = Some xp" "y_perm sc = Some yp"
        "select0 xp t = Inr xb" "select0 yp t = Inr yb"
        "Linear_forward (mem sc) (model sc) xb = Inr pred" "MSELoss_sum pred yb = Inr l"
        "batch_body T e t sc = Inr sd" "sd = after_batch T e t sc xb yb pred l"
        "for_each (batch_body T e) [Suc t..<nbat] sd = Inr se" "append_loss se = Inr sa'"
      by auto
    from b(10) have eff:
      "y_pred sd = Some \<lparr>gval = pred, gleaves = parameters (model sc), ginputs = [xb]\<rparr>"
      "loss sd = Some \<lparr>gval = l, gleaves = parameters (model sc), ginputs = [xb, yb]\<rparr>"
      "mem sd = snd (step T (optimizer sc)
                       (backward T \<lparr>gval = l, gleaves = parameters (model sc), ginputs = [xb, yb]\<rparr>
                          (zero_grad (optimizer sc) (mem sc))))"
      "optimizer sd = fst (step T (optimizer sc)
                       (backward T \<lparr>gval = l, gleaves = parameters (model sc), ginputs = [xb, yb]\<rparr>
                          (zero_grad (optimizer sc) (mem sc))))"
      "calls sd = calls sc @ [Forward e t, Criterion e t, ZeroGrad e t, Backward e t, Step e t]"
      by (simp_all add: after_batch_def Let_def batch_calls_def)
    note f = ep(1) b(1-9) eff b(11,12) ep(2,3)
    show ?thesis
      apply (rule exI [of _ sa], rule exI [of _ sb], rule exI [of _ sc], rule exI [of _ sd],
          rule exI [of _ se], rule exI [of _ sa'], rule exI [of _ xp], rule exI [of _ yp],
          rule exI [of _ xb], rule exI [of _ yb], rule exI [of _ pred], rule exI [of _ l])
      apply (intro conjI)
      apply (fact f)+
      done
  qed
  show ?thesis
    apply (rule exI [of _ s0], rule exI [of _ s])
    apply (intro conjI allI impI)
    apply (fact s0(1))
    apply (fact run)
    apply (fact sp)
    apply (fact cl)
    apply (rule tr)
    apply assumption+
    done
qed

theorem training_loop_order_witness:
  "\<exists>s. cells example_torch 2 1 2 0 = Inr s
      \<and> calls s = [Forward 0 0, Criterion 0 0, ZeroGrad 0 0, Backward 0 0, Step 0 0,
                   Forward 0 1, Criterion 0 1, ZeroGrad 0 1, Backward 0 1, Step 0 1,
                   Forward 1 0, Criterion 1 0, ZeroGrad 1 0, Backward 1 0, Step 1 0,
                   Forward 1 1, Criterion 1 1, ZeroGrad 1 1, Backward 1 1, Step 1 1]
      \<and> (\<exists>s0 :: (unit, nat) nb.
            spec_epochs example_torch (model s0) (Tensor Float32 CPU [2, 1, 1] [0, 50])
                  (Tensor Float32 CPU [2, 1, 1] [5, 311 / 2]) 2 2
                  ((optimizer s0, mem s0), rng s0, [])
                = Inr ((optimizer s, mem s), rng s, history s))"
proof -
  let ?E = "\<lparr>e_mem = [\<lparr>data = Tensor Float32 CPU [2, 1, 1] [0, 50], grad = None, requires_grad = False\<rparr>,
                   \<lparr>data = Tensor Float32 CPU [2, 1, 1] [5, 311 / 2], grad = None, requires_grad = False\<rparr>],
          e_rng = 4 :: nat, e_n_batches = 2, e_batch_size = 1, e_epoches = 2, e_x = 0, e_y = 1\<rparr>"
  note E = example_data2
  note two = upt_2
  have pos: "0 < (2 :: nat)" by simp
  from training_loop_order [OF example_randperm_ok pos E]
  obtain s0 :: "(unit, nat) nb" and s where r: "training_cell example_torch ?E = Inr s"
    "spec_epochs example_torch (model s0) (data (e_mem ?E ! e_x ?E)) (data (e_mem ?E ! e_y ?E)) 2 2
        ((optimizer s0, mem s0), rng s0, []) = Inr ((optimizer s, mem s), rng s, history s)"
    "calls s = concat (map (\<lambda>e. concat (map (\<lambda>t.
                 [Forward e t, Criterion e t, ZeroGrad e t, Backward e t, Step e t])
                 [0..<2])) [0..<2])"
    by (elim exE conjE) blast
  from r(2) have sp: "spec_epochs example_torch (model s0) (Tensor Float32 CPU [2, 1, 1] [0, 50])
        (Tensor Float32 CPU [2, 1, 1] [5, 311 / 2]) 2 2
        ((optimizer s0, mem s0), rng s0, []) = Inr ((optimizer s, mem s), rng s, history s)"
    by simp
  from r(3) have cl: "calls s = [Forward 0 0, Criterion 0 0, ZeroGrad 0 0, Backward 0 0, Step 0 0,
                   Forward 0 1, Criterion 0 1, ZeroGrad 0 1, Backward 0 1, Step 0 1,
                   Forward 1 0, Criterion 1 0, ZeroGrad 1 0, Backward 1 0, Step 1 0,
                   Forward 1 1, Criterion 1 1, ZeroGrad 1 1, Backward 1 1, Step 1 1]"
    unfolding two by simp
  have "cells example_torch 2 1 2 0 = Inr s"
    unfolding cells_def E using r(1) by simp
  with cl sp show ?thesis by blast
qed

text \<open>
  C4: when \<^verbatim>\<open>torch.randperm\<close> returns permutations and there is at least one batch,
  every epoch \<open>e\<close> of the training is reached (in a state \<open>sa\<close>), is run (to a state
  \<open>sa'\<close>), and the epochs after it lead to the final state of the training cell.  The
  epoch draws one permutation \<open>p\<close> of the batch indices and sets \<^verbatim>\<open>x_perm\<close> and
  \<^verbatim>\<open>y_perm\<close> to \<^verbatim>\<open>x\<close> and \<^verbatim>\<open>y\<close> (as the data cell left them) indexed by this same \<open>p\<close>:
  batch \<open>t\<close> of \<^verbatim>\<open>x_perm\<close> is batch \<open>p ! t\<close> of \<^verbatim>\<open>x\<close> and batch \<open>t\<close> of \<^verbatim>\<open>y_perm\<close> is batch
  \<open>p ! t\<close> of \<^verbatim>\<open>y\<close>.  The optimizer and the store that the epoch leaves are those of
  training, in the order of \<open>p\<close>, on the input batch \<open>i\<close> of \<^verbatim>\<open>x\<close> together with the
  target batch \<open>i\<close> of \<^verbatim>\<open>y\<close>; and batch \<open>t\<close> of the epoch makes its forward pass on
  batch \<open>p ! t\<close> of \<^verbatim>\<open>x\<close> and computes its loss against batch \<open>p ! t\<close> of \<^verbatim>\<open>y\<close> (the
  loss that the batch leaves was computed from these two).
\<close>

theorem shuffle_keeps_pairs:
  assumes "randperm_ok T" "0 < nbat" "data_cell T nbat bsz eps h g = Inr E"
    "prepare T E = Inr s0" "e < eps"
  shows "\<exists>s sa sa' p xp yp lst.
           training_cell T E = Inr s
           \<and> for_each (epoch_body T) [0..<e] s0 = Inr sa
           \<and> epoch_body T e sa = Inr sa'
           \<and> for_each (epoch_body T) [Suc e..<eps] sa' = Inr s
           \<and> mem sa ! x_var sa = e_mem E ! e_x E \<and> mem sa ! y_var sa = e_mem E ! e_y E
           \<and> randperm_sample T nbat (rng sa) = (p, rng sa')
           \<and> mset p = mset [0..<nbat]
           \<and> rand_perm sa' = Some p \<and> x_perm sa' = Some xp \<and> y_perm sa' = Some yp
           \<and> index0 (data (e_mem E ! e_x E)) p = Inr xp
           \<and> index0 (data (e_mem E ! e_y E)) p = Inr yp
           \<and> spec_batches T (model sa)
                 (map (\<lambda>i. (batch_of (data (e_mem E ! e_x E)) i, batch_of (data (e_mem E ! e_y E)) i)) p)
                 ((optimizer sa, mem sa), None)
               = Inr ((optimizer sa', mem sa'), Some lst)
           \<and> (\<forall>t<nbat. \<exists>sb sc sd xb yb pred l.
                  p ! t < nbat
                  \<and> select0 (data (e_mem E ! e_x E)) (p ! t) = Inr xb
                  \<and> select0 (data (e_mem E ! e_y E)) (p ! t) = Inr yb
                  \<and> select0 xp t = Inr xb \<and> select0 yp t = Inr yb
                  \<and> shuffle T sa = Inr sb
                  \<and> for_each (batch_body T e) [0..<t] sb = Inr sc
                  \<and> x_perm sc = Some xp \<and> y_perm sc = Some yp
                  \<and> batch_body T e t sc = Inr sd
                  \<and> Linear_forward (mem sc) (model sc) xb = Inr pred
                  \<and> MSELoss_sum pred yb = Inr l
                  \<and> y_pred sd = Some \<lparr>gval = pred, gleaves = parameters (model sc), ginputs = [xb]\<rparr>
                  \<and> loss sd = Some \<lparr>gval = l, gleaves = parameters (model sc), ginputs = [xb, yb]\<rparr>)"
proof -
  let ?X = "data (e_mem E ! e_x E)" and ?Y = "data (e_mem E ! e_y E)"
  from prepare_trainable [OF assms(3)] assms(4)
  have s0: "trainable s0" "n_batches s0 = nbat" "epoches s0 = eps"
    "mem s0 ! x_var s0 = e_mem E ! e_x E" "mem s0 ! y_var s0 = e_mem E ! e_y E"
    by auto
  from epochs_ok [OF assms(1) s0(1), of eps] assms(2) s0(2)
  obtain s where s: "for_each (epoch_body T) [0..<eps] s0 = Inr s"
    by auto
  have run: "training_cell T E = Inr s"
    using s by (simp add: training_cell_eq [OF assms(4)] s0(3))
  from for_each_split [OF assms(5) s] obtain sa sa' where
    ep: "for_each (epoch_body T) [0..<e] s0 = Inr sa" "epoch_body T e sa = Inr sa'"
      "for_each (epoch_body T) [Suc e..<eps] sa' = Inr s"
    by blast
  have fa: "frame s0 sa"
    using epochs_frame [OF ep(1)] trainable_params [OF s0(1)] by simp
  have ta: "trainable sa" using frame_trainable [OF fa s0(1)] .
  from s0(1) have "x_var s0 \<notin> set (opt_params (optimizer s0))"
    "y_var s0 \<notin> set (opt_params (optimizer s0))"
    by (auto simp: trainable_def)
  with fa s0 have same: "mem sa ! x_var sa = e_mem E ! e_x E"
    "mem sa ! y_var sa = e_mem E ! e_y E" "n_batches sa = nbat"
    by (simp_all add: frame_def)
  from epoch_spec [OF assms(1) ta _ ep(2)] assms(2) same
  obtain p xp yp lst where sh:
    "randperm_sample T nbat (rng sa) = (p, rng sa')" "mset p = mset [0..<nbat]"
    "rand_perm sa' = Some p" "x_perm sa' = Some xp" "y_perm sa' = Some yp"
    "index0 ?X p = Inr xp" "index0 ?Y p = Inr yp"
    "\<forall>t<nbat. p ! t < nbat"
    "spec_batches T (model sa) (map (\<lambda>i. (batch_of ?X i, batch_of ?Y i)) p)
        ((optimizer sa, mem sa), None) = Inr ((optimizer sa', mem sa'), Some lst)"
    by auto
  have bt: "\<exists>sb sc sd xb yb pred l.
                  p ! t < nbat
                  \<and> select0 ?X (p ! t) = Inr xb
                  \<and> select0 ?Y (p ! t) = Inr yb
                  \<and> select0 xp t = Inr xb \<and> select0 yp t = Inr yb
                  \<and> shuffle T sa = Inr sb
                  \<and> for_each (batch_body T e) [0..<t] sb = Inr sc
                  \<and> x_perm sc = Some xp \<and> y_perm sc = Some yp
                  \<and> batch_body T e t sc = Inr sd
                  \<and> Linear_forward (mem sc) (model sc) xb = Inr pred
                  \<and> MSELoss_sum pred yb = Inr l
                  \<and> y_pred sd = Some \<lparr>gval = pred, gleaves = parameters (model sc), ginputs = [xb]\<rparr>
                  \<and> loss sd = Some \<lparr>gval = l, gleaves = parameters (model sc), ginputs = [xb, yb]\<rparr>"
    if t: "t < nbat" for t
  proof -
    from batch_trace [OF assms(1) ta _ ep(2), of t] t same
    obtain p' sb sc sd se xp' yp' xb yb pred l where
      b: "randperm_sample T nbat (rng sa) = (p', rng sa')"
        "shuffle T sa = Inr sb" "for_each (batch_body T e) [0..<t] sb = Inr sc"
        "x_perm sc = Some xp'" "y_perm sc = Some yp'"
        "select0 xp' t = Inr xb" "select0 yp' t = Inr yb"
        "select0 ?X (p' ! t) = Inr xb" "select0 ?Y (p' ! t) = Inr yb"
        "Linear_forward (mem sc) (model sc) xb = Inr pred" "MSELoss_sum pred yb = Inr l"
        "batch_body T e t sc = Inr sd" "sd = after_batch T e t sc xb yb pred l"
        "for_each (batch_body T e) [Suc t..<nbat] sd = Inr se" "append_loss se = Inr sa'"
      by auto
    from b(1) sh(1) have pp: "p' = p" by simp
    from batches_keep [OF b(14)] b(13,4,5)
    have "x_perm se = Some xp'" "y_perm se = Some yp'"
      by (simp_all add: after_batch_fields)
    moreover from b(15) have "x_perm sa' = x_perm se" "y_perm sa' = y_perm se"
      by (auto simp: append_loss_def split: option.splits sum.splits)
    ultimately have xx: "xp' = xp" "yp' = yp" using sh(4,5) by simp_all
    from sh(8) t have pt: "p ! t < nbat" by simp
    from b(13) have eff:
      "y_pred sd = Some \<lparr>gval = pred, gleaves = parameters (model sc), ginputs = [xb]\<rparr>"
      "loss sd = Some \<lparr>gval = l, gleaves = parameters (model sc), ginputs = [xb, yb]\<rparr>"
      by (simp_all add: after_batch_def Let_def)
    note f = pt b(8,9) [unfolded pp] b(6,7) [unfolded xx] b(2,3) b(4,5) [unfolded xx] b(12,10,11) eff
    show ?thesis
      apply (rule exI [of _ sb], rule exI [of _ sc], rule exI [of _ sd], rule exI [of _ xb],
          rule exI [of _ yb], rule exI [of _ pred], rule exI [of _ l])
      apply (intro conjI)
      apply (fact f)+
      done
  qed
  note f = run ep same(1,2) sh(1-7,9)
  show ?thesis
    apply (rule exI [of _ s], rule exI [of _ sa], rule exI [of _ sa'], rule exI [of _ p],
        rule exI [of _ xp], rule exI [of _ yp], rule exI [of _ lst])
    apply (intro conjI allI impI)
    apply (fact f)+
    apply (rule bt)
    apply assumption
    done
qed

theorem shuffle_keeps_pairs_witness:
  "\<exists>E s0 s sa sa' xp yp.
      data_cell example_torch 2 1 2 [] 0 = Inr E \<and> prepare example_torch E = Inr s0
      \<and> training_cell example_torch E = Inr s
      \<and> for_each (epoch_body example_torch) [0..<1] s0 = Inr sa
      \<and> epoch_body example_torch 1 sa = Inr sa'
      \<and> for_each (epoch_body example_torch) [Suc 1..<2] sa' = Inr s
      \<and> rand_perm sa' = Some [1, 0] \<and> x_perm sa' = Some xp \<and> y_perm sa' = Some yp
      \<and> xp = Tensor Float32 CPU [2, 1, 1] [50, 0] \<and> yp = Tensor Float32 CPU [2, 1, 1] [311 / 2, 5]"
proof -
  let ?E = "\<lparr>e_mem = [\<lparr>data = Tensor Float32 CPU [2, 1, 1] [0, 50], grad = None, requires_grad = False\<rparr>,
                   \<lparr>data = Tensor Float32 CPU [2, 1, 1] [5, 311 / 2], grad = None, requires_grad = False\<rparr>],
          e_rng = 4 :: nat, e_n_batches = 2, e_batch_size = 1, e_epoches = 2, e_x = 0, e_y = 1\<rparr>"
  note E = example_data2
  obtain s0 where s0: "prepare example_torch ?E = Inr s0"
    by (simp add: prepare_eq)
  have two: "rev [0..<2] = [1, 0]" by (simp add: upt_2)
  from shuffle_keeps_pairs [OF example_randperm_ok _ E s0, of 1]
  obtain s sa sa' p xp yp where r:
    "training_cell example_torch ?E = Inr s"
    "for_each (epoch_body example_torch) [0..<1] s0 = Inr sa"
    "epoch_body example_torch 1 sa = Inr sa'"
    "for_each (epoch_body example_torch) [Suc 1..<2] sa' = Inr s"
    "randperm_sample example_torch 2 (rng sa) = (p, rng sa')"
    "rand_perm sa' = Some p" "x_perm sa' = Some xp" "y_perm sa' = Some yp"
    "index0 (data (e_mem ?E ! e_x ?E)) p = Inr xp"
    "index0 (data (e_mem ?E ! e_y ?E)) p = Inr yp"
    by auto
  from r(5) have p: "p = [1, 0]"
    by (simp add: example_torch_def two)
  from r(9,10) have "xp = Tensor Float32 CPU [2, 1, 1] [50, 0]"
    "yp = Tensor Float32 CPU [2, 1, 1] [311 / 2, 5]"
    unfolding p by (auto simp: index0_def slice_def numel_def)
  with E s0 r(1,2,3,4,6,7,8) show ?thesis
    unfolding p by blast
qed

text \<open>
  C6: an optimizer step leaves every object of the store that is not one of the
  optimizer's parameters as it is, and of its parameters it changes only the data,
  which the update rule computes from their data and gradients (their gradients,
  dtypes, devices, shapes and flags stay).  The training cell constructs the optimizer
  from the model's parameters \<^verbatim>\<open>w\<close> and \<^verbatim>\<open>b\<close>; when it returns, every object of the
  store other than \<^verbatim>\<open>w\<close> and \<^verbatim>\<open>b\<close> is as it was, in particular the tensors \<^verbatim>\<open>x\<close> and
  \<^verbatim>\<open>y\<close> of the data cell and every object that was in the store before the data cell;
  the variables of the data cell and the model still refer to the same objects, and
  \<^verbatim>\<open>w\<close> and \<^verbatim>\<open>b\<close> have kept their dtypes, devices and shapes (\<open>frame\<close>).
\<close>

theorem training_frame:
  assumes "data_cell T nbat bsz eps h g = Inr E" "training_cell T E = Inr s"
  shows "(\<exists>s0 aw ab.
           prepare T E = Inr s0
           \<and> parameters (model s0) = [aw, ab] \<and> opt_params (optimizer s0) = [aw, ab]
           \<and> frame s0 s
           \<and> x_var s = e_x E \<and> y_var s = e_y E \<and> e_x E \<noteq> aw \<and> e_x E \<noteq> ab
           \<and> e_y E \<noteq> aw \<and> e_y E \<noteq> ab
           \<and> mem s ! x_var s = e_mem E ! e_x E \<and> mem s ! y_var s = e_mem E ! e_y E
           \<and> (\<forall>a. a \<noteq> aw \<and> a \<noteq> ab \<longrightarrow> mem s ! a = mem s0 ! a)
           \<and> (\<forall>a<length (e_mem E). mem s ! a = e_mem E ! a))
       \<and> (\<forall>opt hh a. a \<notin> set (opt_params opt) \<longrightarrow> snd (step T opt hh) ! a = hh ! a)
       \<and> (\<forall>opt hh a. grad (snd (step T opt hh) ! a) = grad (hh ! a)
             \<and> shape (data (snd (step T opt hh) ! a)) = shape (data (hh ! a))
             \<and> dtype (data (snd (step T opt hh) ! a)) = dtype (data (hh ! a))
             \<and> device (data (snd (step T opt hh) ! a)) = device (data (hh ! a))
             \<and> requires_grad (snd (step T opt hh) ! a) = requires_grad (hh ! a))
       \<and> (\<forall>opt hh pw pb st vw vb.
             opt_params opt = [pw, pb] \<and> pw \<noteq> pb \<and> pw < length hh \<and> pb < length hh
             \<and> adam_update T (opt_state opt)
                   [(data (hh ! pw), grad (hh ! pw)), (data (hh ! pb), grad (hh ! pb))]
                 = (st, [vw, vb]) \<longrightarrow>
             step T opt hh =
               (opt\<lparr>opt_state := st\<rparr>,
                hh[pw := (hh ! pw)\<lparr>data := Tensor (dtype (data (hh ! pw))) (device (data (hh ! pw)))
                                              (shape (data (hh ! pw))) vw\<rparr>,
                   pb := (hh ! pb)\<lparr>data := Tensor (dtype (data (hh ! pb))) (device (data (hh ! pb)))
                                              (shape (data (hh ! pb))) vb\<rparr>]))"
proof -
  from prepare_trainable [OF assms(1)] obtain s0 where
    s0: "prepare T E = Inr s0" "x_var s0 = e_x E" "y_var s0 = e_y E"
      "mem s0 ! x_var s0 = e_mem E ! e_x E" "mem s0 ! y_var s0 = e_mem E ! e_y E"
      "x_var s0 < length (e_mem E)" "y_var s0 < length (e_mem E)"
      "opt_params (optimizer s0) = parameters (model s0)"
      "parameters (model s0) = [length (e_mem E), Suc (length (e_mem E))]"
    by blast
  let ?aw = "length (e_mem E)" and ?ab = "Suc (length (e_mem E))"
  from assms(2) have "for_each (epoch_body T) [0..<epoches s0] s0 = Inr s"
    by (simp add: training_cell_eq [OF s0(1)])
  from epochs_frame [OF this] s0(8) have fr: "frame s0 s" by simp
  have old: "mem s0 ! a = e_mem E ! a" if "a < length (e_mem E)" for a
    using s0(1) that by (auto simp: prepare_eq nth_append)
  from fr s0(8,9) have other: "mem s ! a = mem s0 ! a" if "a \<noteq> ?aw \<and> a \<noteq> ?ab" for a
    using that by (simp add: frame_def)
  from fr have v: "x_var s = x_var s0" "y_var s = y_var s0" by (simp_all add: frame_def)
  have xs: "e_x E \<noteq> ?aw" "e_x E \<noteq> ?ab" "e_y E \<noteq> ?aw" "e_y E \<noteq> ?ab"
    using s0(2,3,6,7) by simp_all
  have xm: "mem s ! x_var s = e_mem E ! e_x E" "mem s ! y_var s = e_mem E ! e_y E"
    using other [of "e_x E"] other [of "e_y E"] xs v s0(2,3,4,5) by simp_all
  have om: "\<forall>a<length (e_mem E). mem s ! a = e_mem E ! a"
    using other old by simp
  have part1: "\<exists>s0 aw ab.
           prepare T E = Inr s0
           \<and> parameters (model s0) = [aw, ab] \<and> opt_params (optimizer s0) = [aw, ab]
           \<and> frame s0 s
           \<and> x_var s = e_x E \<and> y_var s = e_y E \<and> e_x E \<noteq> aw \<and> e_x E \<noteq> ab
           \<and> e_y E \<noteq> aw \<and> e_y E \<noteq> ab
           \<and> mem s ! x_var s = e_mem E ! e_x E \<and> mem s ! y_var s = e_mem E ! e_y E
           \<and> (\<forall>a. a \<noteq> aw \<and> a \<noteq> ab \<longrightarrow> mem s ! a = mem s0 ! a)
           \<and> (\<forall>a<length (e_mem E). mem s ! a = e_mem E ! a)"
    apply (rule exI [of _ s0], rule exI [of _ ?aw], rule exI [of _ ?ab])
    using s0(1,8,9) fr v s0(2,3) xs xm other om apply simp
    done
  have part2: "\<forall>opt hh a. a \<notin> set (opt_params opt) \<longrightarrow> snd (step T opt hh) ! a = hh ! a"
    by (simp add: step_other)
  have part3: "\<forall>opt hh a. grad (snd (step T opt hh) ! a) = grad (hh ! a)
             \<and> shape (data (snd (step T opt hh) ! a)) = shape (data (hh ! a))
             \<and> dtype (data (snd (step T opt hh) ! a)) = dtype (data (hh ! a))
             \<and> device (data (snd (step T opt hh) ! a)) = device (data (hh ! a))
             \<and> requires_grad (snd (step T opt hh) ! a) = requires_grad (hh ! a)"
    by (simp add: step_grad step_shape step_dtype step_device step_requires)
  have part4: "\<forall>opt hh pw pb st vw vb.
             opt_params opt = [pw, pb] \<and> pw \<noteq> pb \<and> pw < length hh \<and> pb < length hh
             \<and> adam_update T (opt_state opt)
                   [(data (hh ! pw), grad (hh ! pw)), (data (hh ! pb), grad (hh ! pb))]
                 = (st, [vw, vb]) \<longrightarrow>
             step T opt hh =
               (opt\<lparr>opt_state := st\<rparr>,
                hh[pw := (hh ! pw)\<lparr>data := Tensor (dtype (data (hh ! pw))) (device (data (hh ! pw)))
                                              (shape (data (hh ! pw))) vw\<rparr>,
                   pb := (hh ! pb)\<lparr>data := Tensor (dtype (data (hh ! pb))) (device (data (hh ! pb)))
                                              (shape (data (hh ! pb))) vb\<rparr>])"
    by (intro allI impI, elim conjE, rule step_two)
  show ?thesis
    by (rule conjI [OF part1 conjI [OF part2 conjI [OF part3 part4]]])
qed

theorem training_frame_witness:
  "\<exists>E s. data_cell example_torch 64 32 200 [] 0 = Inr E
      \<and> training_cell example_torch E = Inr s
      \<and> x_var s = e_x E \<and> y_var s = e_y E
      \<and> mem s ! x_var s = e_mem E ! e_x E \<and> mem s ! y_var s = e_mem E ! e_y E
      \<and> mem s ! 0 = e_mem E ! 0 \<and> mem s ! 1 = e_mem E ! 1"
proof -
  from data_cell_ok [of example_torch 64 32 200 "[]" 0]
  obtain E where E: "data_cell example_torch 64 32 200 [] 0 = Inr E"
    and l: "length (e_mem E) = 2"
    by auto
  from training_cell_ok [OF example_randperm_ok _ E]
  obtain s where s: "training_cell example_torch E = Inr s" by auto
  from conjunct1 [OF training_frame [OF E s]] have
    "x_var s = e_x E \<and> y_var s = e_y E
      \<and> mem s ! x_var s = e_mem E ! e_x E \<and> mem s ! y_var s = e_mem E ! e_y E"
    and "\<forall>a<length (e_mem E). mem s ! a = e_mem E ! a"
    by blast+
  with l E s show ?thesis by auto
qed




end
